theory Spec2Isabelle
  imports Main "HOL-Library.AList"
begin

section \<open>Python values shared by the agents\<close>

text \<open>
  Exceptions are values. Each constructor is the Python class of the same name and
  carries the argument the exception was built with; \<open>ExternalError\<close> stands for
  whatever a collaborator outside the repository (model client, device, task
  service) raises, \<open>MarkupError\<close> is what the console of the rich library raises for
  a text whose markup it cannot render, and \<open>RetryError\<close> is the wrapper the retry
  decorator raises once its attempts are used up, holding the exception of the last
  attempt.
\<close>

datatype exn =
    KeyError string
  | TypeError string
  | IndexError string
  | ValueError string
  | SystemError string
  | UnboundLocalError string
  | ZeroDivisionError string
  | AttributeError string
  | ValidationError string
  | MarkupError string
  | ExternalError string
  | RetryError exn

text \<open>
  Decoded JSON, the shape of every payload the parsers read. Numbers are integers:
  the parsers only floor-divide them, and the fractional payloads Python would
  accept as well are left out of the model. A dict is an association list read with
  \<open>map_of\<close>.
\<close>

datatype json =
    JNull
  | JBool bool
  | JInt int
  | JStr string
  | JList "json list"
  | JObj "(string \<times> json) list"

type_synonym pydict = "(string \<times> json) list"

text \<open>
  What the agents and the qwen parser give \<open>console.print\<close> as a formatted string,
  by the place of the call, with the data interpolated into it. The console belongs to
  the rich library, outside the repository; it reads square brackets in a string as
  markup and raises \<open>MarkupError\<close> for a closing tag that closes nothing, such as
  \<open>[/b]\<close>. A console is therefore the exception it raises for what it is given, if
  it raises. Left out are the prints that cannot meet markup: those of constant
  texts, of the task status and of JSON renderables, the exception that the
  \<open>except\<close> clause of the claude agent's \<open>take_action\<close> hands the console as
  an object of its own (only strings are read as markup), and the error \<open>solve_task\<close>
  prints, which is always the wrapper of the retry decorator, whose text opens its
  bracket with \<open><\<close> and so holds no tag.
\<close>

datatype printed =
    RawContent string
  | FoundToolUsage json
  | ParsedAction json
  | ParsedParams pydict
  | BlockText "json option"
  | FoundAction string pydict
  | FoundOnDevice string
  | NotFound string
  | ActionOutput string

type_synonym console = "printed \<Rightarrow> exn option"

text \<open>\<open>console.print(...)\<close> before the rest \<open>k\<close> of a computation without state.\<close>

definition printing :: "console \<Rightarrow> printed \<Rightarrow> (exn + 'a) \<Rightarrow> exn + 'a" where
  "printing c p k = (case c p of Some x \<Rightarrow> Inl x | None \<Rightarrow> k)"

text \<open>A console that renders everything it is given.\<close>

definition plain_console :: console where
  "plain_console p = None"

text \<open>\<open>V1Action(name=..., parameters=...)\<close>\<close>

record V1Action =
  name :: string
  parameters :: pydict

text \<open>Sequencing of computations that may raise.\<close>

fun bnd :: "exn + 'a \<Rightarrow> ('a \<Rightarrow> exn + 'b) \<Rightarrow> exn + 'b" where
  "bnd (Inl e) f = Inl e"
| "bnd (Inr v) f = f v"

text \<open>\<open>d[k]\<close> on a dict with a string key.\<close>

definition getitem :: "pydict \<Rightarrow> string \<Rightarrow> exn + json" where
  "getitem d k = (case map_of d k of None \<Rightarrow> Inl (KeyError k) | Some v \<Rightarrow> Inr v)"

text \<open>\<open>v[k]\<close> on any decoded value with a string key: only a dict has one.\<close>

fun subscript_str :: "json \<Rightarrow> string \<Rightarrow> exn + json" where
  "subscript_str (JObj d) k = getitem d k"
| "subscript_str (JList xs) k = Inl (TypeError ''list indices must be integers or slices, not str'')"
| "subscript_str (JStr s) k = Inl (TypeError ''string indices must be integers'')"
| "subscript_str v k = Inl (TypeError ''object is not subscriptable'')"

text \<open>
  \<open>v[i]\<close> with the literal index 0 or 1: an element of a list, a character of a
  string; a decoded dict has string keys only.
\<close>

fun subscript_int :: "json \<Rightarrow> nat \<Rightarrow> exn + json" where
  "subscript_int (JList xs) i =
     (if i < length xs then Inr (xs ! i) else Inl (IndexError ''list index out of range''))"
| "subscript_int (JStr s) i =
     (if i < length s then Inr (JStr [s ! i]) else Inl (IndexError ''string index out of range''))"
| "subscript_int (JObj d) i = Inl (KeyError ''int'')"
| "subscript_int v i = Inl (TypeError ''object is not subscriptable'')"

fun py_len :: "json \<Rightarrow> exn + nat" where
  "py_len (JList xs) = Inr (length xs)"
| "py_len (JStr s) = Inr (length s)"
| "py_len (JObj d) = Inr (length d)"
| "py_len v = Inl (TypeError ''object has no len()'')"

text \<open>What a \<open>for\<close> loop iterates over.\<close>

fun py_iter :: "json \<Rightarrow> exn + json list" where
  "py_iter (JList xs) = Inr xs"
| "py_iter (JStr s) = Inr (map (\<lambda>c. JStr [c]) s)"
| "py_iter (JObj d) = Inr (map (\<lambda>kv. JStr (fst kv)) d)"
| "py_iter v = Inl (TypeError ''object is not iterable'')"

text \<open>
  \<open>v // d\<close> for a positive literal \<open>d\<close>: the floored quotient, as \<open>div\<close> on
  \<open>int\<close> is; a bool counts as 0 or 1.
\<close>

fun py_floordiv :: "json \<Rightarrow> int \<Rightarrow> exn + int" where
  "py_floordiv (JInt n) d = Inr (n div d)"
| "py_floordiv (JBool b) d = Inr ((if b then 1 else 0) div d)"
| "py_floordiv v d = Inl (TypeError ''unsupported operand type(s) for //'')"

subsection \<open>Strings\<close>

text \<open>
  Strings are byte strings; the string methods are modelled on ASCII (a character
  outside ASCII is neither a letter with a lower case nor white space here).
\<close>

definition lower_char :: "char \<Rightarrow> char" where
  "lower_char c =
     (case map_of (zip ''ABCDEFGHIJKLMNOPQRSTUVWXYZ'' ''abcdefghijklmnopqrstuvwxyz'') c of
        Some d \<Rightarrow> d
      | None \<Rightarrow> c)"

definition py_lower :: "string \<Rightarrow> string" where
  "py_lower s = map lower_char s"

definition is_space :: "char \<Rightarrow> bool" where
  "is_space c = (c \<in> set [CHR '' '', CHR 0x09, CHR 0x0A, CHR 0x0B, CHR 0x0C, CHR 0x0D,
                            CHR 0x1C, CHR 0x1D, CHR 0x1E, CHR 0x1F])"

definition py_strip :: "string \<Rightarrow> string" where
  "py_strip s = rev (dropWhile is_space (rev (dropWhile is_space s)))"

text \<open>\<open>s.split(sep)\<close> for a separator of one character.\<close>

fun py_split :: "char \<Rightarrow> string \<Rightarrow> string list" where
  "py_split sep [] = [[]]"
| "py_split sep (c # cs) =
     (if c = sep then [] # py_split sep cs
      else (case py_split sep cs of w # ws \<Rightarrow> (c # w) # ws | [] \<Rightarrow> [[c]]))"

text \<open>\<open>s.replace("_", "")\<close>\<close>

definition strip_underscores :: "string \<Rightarrow> string" where
  "strip_underscores s = filter (\<lambda>c. c \<noteq> CHR ''_'') s"

text \<open>A method of \<open>str\<close> called on a decoded value: anything else has no such attribute.\<close>

fun as_str :: "json \<Rightarrow> exn + string" where
  "as_str (JStr s) = Inr s"
| "as_str v = Inl (AttributeError ''object has no such attribute'')"

section \<open>Context trimming (claude\_computer\_use/agent.py)\<close>

text \<open>
  The message history of the claude agent. A message's \<open>content\<close> is a string or a
  list of items; an item is a dict (its \<open>type\<close> entry, \<open>None\<close> when the key is
  absent, its \<open>content\<close> entry, and the other entries of the dict) or
  something that is not a dict. The \<open>content\<close> of a tool result is absent, a
  string or a list of blocks; a block is a dict (its \<open>type\<close> entry and a payload)
  or something that is not a dict.
\<close>

datatype block = DictBlock "string option" string | RawBlock string

datatype tr_content = Missing | Str string | Blocks "block list"

datatype item = DictItem "string option" tr_content pydict | RawItem string

datatype message_content = Text string | Items "item list"

record message =
  msg_role :: string
  msg_content :: message_content

text \<open>\<open>isinstance(content, dict) and content.get("type") == "image"\<close>\<close>

fun is_image :: "block \<Rightarrow> bool" where
  "is_image (DictBlock t p) = (t = Some ''image'')"
| "is_image (RawBlock p) = False"

text \<open>\<open>isinstance(item, dict) and item.get("type") == "tool_result"\<close>\<close>

fun is_tool_result :: "item \<Rightarrow> bool" where
  "is_tool_result (DictItem t c p) = (t = Some ''tool_result'')"
| "is_tool_result (RawItem p) = False"

text \<open>\<open>message["content"] if isinstance(message["content"], list) else []\<close>\<close>

fun items_of :: "message \<Rightarrow> item list" where
  "items_of m = (case msg_content m of Items its \<Rightarrow> its | Text s \<Rightarrow> [])"

definition tool_result_blocks :: "message list \<Rightarrow> item list" where
  "tool_result_blocks messages = filter is_tool_result (concat (map items_of messages))"

text \<open>
  What \<open>for content in tool_result.get("content", [])\<close> iterates over: nothing
  when the key is absent, the one-character strings of a string, the blocks of a list.
\<close>

fun iter_content :: "item \<Rightarrow> block list" where
  "iter_content (DictItem t Missing p) = []"
| "iter_content (DictItem t (Str s) p) = map (\<lambda>c. RawBlock [c]) s"
| "iter_content (DictItem t (Blocks bs) p) = bs"
| "iter_content (RawItem p) = []"

definition images_of :: "message list \<Rightarrow> block list" where
  "images_of messages =
     filter is_image (concat (map iter_content (tool_result_blocks messages)))"

definition total_images :: "message list \<Rightarrow> int" where
  "total_images messages = int (length (images_of messages))"

text \<open>
  The removal loop. The source walks \<open>tool_result_blocks\<close>, whose elements are the
  very dicts of the history, and assigns a new \<open>content\<close> list to each one that has
  a list; the counter \<open>images_to_remove\<close> is shared by all of them. The model walks
  the history in the same order and threads the counter. (The agent builds every tool
  result anew, so no dict stands at two places of a history.)
\<close>

fun trim_content :: "int \<Rightarrow> block list \<Rightarrow> block list \<times> int" where
  "trim_content n [] = ([], n)"
| "trim_content n (c # cs) =
     (if is_image c \<and> n > 0 then trim_content (n - 1) cs
      else (case trim_content n cs of (new_content, n') \<Rightarrow> (c # new_content, n')))"

fun trim_item :: "int \<Rightarrow> item \<Rightarrow> item \<times> int" where
  "trim_item n (DictItem t (Blocks bs) p) =
     (if t = Some ''tool_result''
      then (case trim_content n bs of (new_content, n') \<Rightarrow> (DictItem t (Blocks new_content) p, n'))
      else (DictItem t (Blocks bs) p, n))"
| "trim_item n it = (it, n)"

fun trim_items :: "int \<Rightarrow> item list \<Rightarrow> item list \<times> int" where
  "trim_items n [] = ([], n)"
| "trim_items n (it # its) =
     (case trim_item n it of (it', n') \<Rightarrow>
        (case trim_items n' its of (its', n'') \<Rightarrow> (it' # its', n'')))"

fun trim_message :: "int \<Rightarrow> message \<Rightarrow> message \<times> int" where
  "trim_message n m =
     (case msg_content m of
        Text s \<Rightarrow> (m, n)
      | Items its \<Rightarrow> (case trim_items n its of (its', n') \<Rightarrow> (m\<lparr>msg_content := Items its'\<rparr>, n')))"

fun trim_messages :: "int \<Rightarrow> message list \<Rightarrow> message list \<times> int" where
  "trim_messages n [] = ([], n)"
| "trim_messages n (m # ms) =
     (case trim_message n m of (m', n') \<Rightarrow>
        (case trim_messages n' ms of (ms', n'') \<Rightarrow> (m' # ms', n'')))"

text \<open>
  \<open>_maybe_filter_to_n_most_recent_images\<close>. Python's \<open>%\<close> on integers is the
  floored remainder, as \<open>mod\<close> on \<open>int\<close> is, except that a zero divisor raises.
\<close>

definition maybe_filter_to_n_most_recent_images ::
    "message list \<Rightarrow> int \<Rightarrow> int \<Rightarrow> exn + message list" where
  "maybe_filter_to_n_most_recent_images messages images_to_keep min_removal_threshold =
     (if images_to_keep = 0 then Inr messages
      else
        let images_to_remove = total_images messages - images_to_keep
        in if min_removal_threshold = 0
           then Inl (ZeroDivisionError ''integer division or modulo by zero'')
           else Inr (fst (trim_messages
                  (images_to_remove - images_to_remove mod min_removal_threshold) messages)))"

text \<open>
  For the statements: the history with every image of a list-valued tool result taken
  out. Two histories with the same skeleton differ in those images only.
\<close>

fun skeleton_item :: "item \<Rightarrow> item" where
  "skeleton_item (DictItem t (Blocks bs) p) =
     (if t = Some ''tool_result'' then DictItem t (Blocks (filter (\<lambda>b. \<not> is_image b) bs)) p
      else DictItem t (Blocks bs) p)"
| "skeleton_item it = it"

fun skeleton_message :: "message \<Rightarrow> message" where
  "skeleton_message m =
     (case msg_content m of
        Text s \<Rightarrow> m
      | Items its \<Rightarrow> m\<lparr>msg_content := Items (map skeleton_item its)\<rparr>)"

definition skeleton :: "message list \<Rightarrow> message list" where
  "skeleton messages = map skeleton_message messages"

text \<open>A history of ten screenshots, one tool result with one image per user turn.\<close>

definition shot :: "string \<Rightarrow> message" where
  "shot p = \<lparr>msg_role = ''user'',
     msg_content = Items [DictItem (Some ''tool_result'')
       (Blocks [DictBlock (Some ''text'') ''ok'', DictBlock (Some ''image'') p])
       [(''tool_use_id'', JStr ''id'')]]\<rparr>"

definition ten_shots :: "message list" where
  "ten_shots =
     \<lparr>msg_role = ''user'', msg_content = Items [DictItem (Some ''text'') Missing [(''text'', JStr ''task'')]]\<rparr> #
     map shot [''png0'', ''png1'', ''png2'', ''png3'', ''png4'', ''png5'', ''png6'', ''png7'', ''png8'', ''png9'']"

text \<open>The images of one item and of a list of items, for the proofs.\<close>

definition item_images :: "item \<Rightarrow> block list" where
  "item_images it = (if is_tool_result it then filter is_image (iter_content it) else [])"

definition items_images :: "item list \<Rightarrow> block list" where
  "items_images its = concat (map item_images its)"

section \<open>The cua dialect (cua/actor/action\_parser.py)\<close>

definition CUA_KEY_TO_AGENTDESK_KEY :: "(string \<times> string) list" where
  "CUA_KEY_TO_AGENTDESK_KEY =
    [(''/'', ''/''),
     ([CHR 0x5C], [CHR 0x5C, CHR 0x5C]),
     (''alt'', ''alt''),
     (''arrowdown'', ''down''),
     (''arrowleft'', ''left''),
     (''arrowright'', ''right''),
     (''arrowup'', ''up''),
     (''backspace'', ''backspace''),
     (''capslock'', ''capslock''),
     (''cmd'', ''command''),
     (''ctrl'', ''ctrl''),
     (''delete'', ''delete''),
     (''end'', ''end''),
     (''enter'', ''enter''),
     (''esc'', ''escape''),
     (''home'', ''home''),
     (''insert'', ''insert''),
     (''option'', ''alt''),
     (''pagedown'', ''pagedown''),
     (''pageup'', ''pageup''),
     (''shift'', ''shift''),
     (''space'', ''space''),
     (''super'', ''command''),
     (''tab'', ''tab''),
     (''win'', ''win'')]"

text \<open>The body of the \<open>keypress\<close> loop, for one key.\<close>

definition cua_key :: "json \<Rightarrow> exn + json" where
  "cua_key key =
     bnd (as_str key) (\<lambda>k.
       let low_key = py_lower k in
       (case map_of CUA_KEY_TO_AGENTDESK_KEY low_key of
          Some v \<Rightarrow> Inr (JStr v)
        | None \<Rightarrow> Inr (JStr low_key)))"

fun cua_keys :: "json list \<Rightarrow> exn + json list" where
  "cua_keys [] = Inr []"
| "cua_keys (key # rest) =
     bnd (cua_key key) (\<lambda>k. bnd (cua_keys rest) (\<lambda>ks. Inr (k # ks)))"

text \<open>
  \<open>parse_action(action_type, action_args)\<close>: \<open>Inr None\<close> is the \<open>None\<close> the
  source returns for an action type it has no branch for.
\<close>

definition cua_parse_action :: "string \<Rightarrow> pydict \<Rightarrow> exn + V1Action option" where
  "cua_parse_action action_type action_args =
    (if action_type = ''click'' then
       bnd (getitem action_args ''x'') (\<lambda>x.
       bnd (getitem action_args ''y'') (\<lambda>y.
       bnd (if map_of action_args ''button'' \<noteq> None then getitem action_args ''button''
            else Inr (JStr ''left'')) (\<lambda>button.
       Inr (Some \<lparr>name = ''click'',
                      parameters = [(''x'', x), (''y'', y), (''button'', button)]\<rparr>))))
     else if action_type = ''double_click'' then
       bnd (getitem action_args ''x'') (\<lambda>x.
       bnd (getitem action_args ''y'') (\<lambda>y.
       Inr (Some \<lparr>name = ''double_click'', parameters = [(''x'', x), (''y'', y)]\<rparr>)))
     else if action_type = ''scroll'' then
       bnd (getitem action_args ''scroll_y'') (\<lambda>scroll_y.
       bnd (py_floordiv scroll_y 10) (\<lambda>q.
       Inr (Some \<lparr>name = ''scroll'', parameters = [(''clicks'', JInt (q * (- 1)))]\<rparr>)))
     else if action_type = ''type'' then
       bnd (getitem action_args ''text'') (\<lambda>text.
       Inr (Some \<lparr>name = ''type_text'', parameters = [(''text'', text)]\<rparr>))
     else if action_type = ''move'' then
       bnd (getitem action_args ''x'') (\<lambda>x.
       bnd (getitem action_args ''y'') (\<lambda>y.
       Inr (Some \<lparr>name = ''move_mouse'', parameters = [(''x'', x), (''y'', y)]\<rparr>)))
     else if action_type = ''keypress'' then
       bnd (getitem action_args ''keys'') (\<lambda>ks.
       bnd (py_iter ks) (\<lambda>elems.
       bnd (cua_keys elems) (\<lambda>keys.
       Inr (Some \<lparr>name = ''hot_key'', parameters = [(''keys'', JList keys)]\<rparr>))))
     else if action_type = ''drag'' then
       bnd (getitem action_args ''path'') (\<lambda>path.
       bnd (subscript_int path 0) (\<lambda>first.
       bnd (py_len path) (\<lambda>n.
       bnd (if n > 1 then subscript_int path 1 else Inr first) (\<lambda>coords.
       bnd (subscript_str coords ''x'') (\<lambda>x.
       bnd (subscript_str coords ''y'') (\<lambda>y.
       Inr (Some \<lparr>name = ''drag_mouse'', parameters = [(''x'', x), (''y'', y)]\<rparr>)))))))
     else if action_type = ''wait'' then
       bnd (if map_of action_args ''ms'' \<noteq> None
            then bnd (getitem action_args ''ms'') (\<lambda>ms.
                 bnd (py_floordiv ms 1000) (\<lambda>q. Inr (JInt q)))
            else Inr (JInt 1)) (\<lambda>seconds.
       Inr (Some \<lparr>name = ''wait'', parameters = [(''seconds'', seconds)]\<rparr>))
     else Inr None)"

section \<open>The claude dialect (claude\_computer\_use/agent.py)\<close>

text \<open>\<open>self.action_mapping\<close>, and \<open>self.action_mapping[k]\<close>.\<close>

definition action_mapping :: "(string \<times> string) list" where
  "action_mapping =
    [(''key'', ''hot_key''),
     (''type'', ''type_text''),
     (''mouse_move'', ''move_mouse''),
     (''left_click'', ''click''),
     (''left_click_drag'', ''drag_mouse''),
     (''right_click'', ''click''),
     (''middle_click'', ''click''),
     (''double_click'', ''double_click''),
     (''screenshot'', ''take_screenshots''),
     (''cursor_position'', ''mouse_coordinates'')]"

definition mapped_name :: "string \<Rightarrow> exn + string" where
  "mapped_name k =
     (case map_of action_mapping k of None \<Rightarrow> Inl (KeyError k) | Some v \<Rightarrow> Inr v)"

text \<open>
  The three steps of \<open>_get_mapped_action_params\<close>. An assignment
  \<open>action_params[k] = v\<close> is \<open>AList.update\<close>, \<open>del action_params[k]\<close> is
  \<open>AList.delete\<close>.
\<close>

definition map_coordinate :: "string \<Rightarrow> pydict \<Rightarrow> exn + pydict" where
  "map_coordinate action_name action_params =
     (if action_name \<in> set [''move_mouse'', ''drag_mouse'']
         \<and> map_of action_params ''coordinate'' \<noteq> None
      then
        bnd (getitem action_params ''coordinate'') (\<lambda>c.
        bnd (subscript_int c 0) (\<lambda>x.
        bnd (subscript_int c 1) (\<lambda>y.
        Inr (AList.delete ''coordinate''
              (AList.update ''y'' y (AList.update ''x'' x action_params))))))
      else Inr action_params)"

definition hot_key_keys :: "string \<Rightarrow> string list" where
  "hot_key_keys text =
     map strip_underscores (map (\<lambda>key. py_lower (py_strip key)) (py_split (CHR ''+'') text))"

definition map_hot_key :: "string \<Rightarrow> pydict \<Rightarrow> exn + pydict" where
  "map_hot_key action_name action_params =
     (if action_name = ''hot_key'' \<and> map_of action_params ''text'' \<noteq> None
      then
        bnd (getitem action_params ''text'') (\<lambda>t.
        bnd (as_str t) (\<lambda>text.
        Inr (AList.delete ''text''
              (AList.update ''keys'' (JList (map JStr (hot_key_keys text))) action_params))))
      else Inr action_params)"

definition map_press_key :: "string \<Rightarrow> pydict \<Rightarrow> exn + pydict" where
  "map_press_key action_name action_params =
     (if action_name = ''press_key''
      then
        bnd (getitem action_params ''key'') (\<lambda>k.
        bnd (as_str k) (\<lambda>key.
        Inr (AList.update ''key'' (JStr (py_lower (strip_underscores key))) action_params)))
      else Inr action_params)"

definition get_mapped_action_params :: "string \<Rightarrow> pydict \<Rightarrow> exn + pydict" where
  "get_mapped_action_params action_name action_params =
     (if action_name \<noteq> ''screenshot''
      then
        bnd (map_coordinate action_name action_params) (\<lambda>p1.
        bnd (map_hot_key action_name p1) (\<lambda>p2.
        map_press_key action_name p2))
      else Inr action_params)"

text \<open>
  What \<open>take_action\<close> does with the \<open>input\<close> of a \<open>tool_use\<close> block before it
  looks the action up on the device: the canonical name from the table, and a copy of
  the input with the button of a right or middle click added and the \<open>action\<close> entry
  deleted.
\<close>

definition tool_use_action :: "pydict \<Rightarrow> exn + (string \<times> pydict)" where
  "tool_use_action input_args =
     bnd (getitem input_args ''action'') (\<lambda>a.
     bnd (case a of
            JStr s \<Rightarrow> mapped_name s
          | JList xs \<Rightarrow> Inl (TypeError ''unhashable type'')
          | JObj d \<Rightarrow> Inl (TypeError ''unhashable type'')
          | _ \<Rightarrow> Inl (KeyError ''not a string'')) (\<lambda>action_name.
       let p1 = (if a = JStr ''right_click''
                 then AList.update ''button'' (JStr ''right'') input_args else input_args);
           p2 = (if a = JStr ''middle_click''
                 then AList.update ''button'' (JStr ''middle'') p1 else p1)
       in Inr (action_name, AList.delete ''action'' p2)))"

section \<open>The qwen dialect (qwen/actor/action\_parser.py)\<close>

subsection \<open>The two regular expressions\<close>

definition starts_with :: "string \<Rightarrow> string \<Rightarrow> bool" where
  "starts_with p s = (take (length p) s = p)"

definition tool_call_open :: string where
  "tool_call_open = ''<tool_call>''"

text \<open>
  The three ways the tool-call pattern may end, each after a newline: the closing tag,
  U+1F4D0 and U+2697 (in UTF-8).
\<close>

definition tool_call_closers :: "string list" where
  "tool_call_closers =
     [CHR 0x0A # ''</tool_call>'',
      [CHR 0x0A, CHR 0xF0, CHR 0x9F, CHR 0x93, CHR 0x90],
      [CHR 0x0A, CHR 0xE2, CHR 0x9A, CHR 0x97]]"

text \<open>The text after a closer that stands right here, if one does.\<close>

fun close_here :: "string list \<Rightarrow> string \<Rightarrow> string option" where
  "close_here [] s = None"
| "close_here (t # ts) s = (if starts_with t s then Some (drop (length t) s) else close_here ts s)"

text \<open>
  The non-greedy group \<open>(.*?)\<close> followed by a closer: the shortest text up to a
  closer, and what follows the closer.
\<close>

fun find_close :: "string \<Rightarrow> (string \<times> string) option" where
  "find_close [] = None"
| "find_close (c # cs) =
     (case close_here tool_call_closers (c # cs) of
        Some rest \<Rightarrow> Some ([], rest)
      | None \<Rightarrow> (case find_close cs of
                   Some (cap, rest) \<Rightarrow> Some (c # cap, rest)
                 | None \<Rightarrow> None))"

text \<open>A match of the whole pattern that starts at the first character.\<close>

definition match_here :: "string \<Rightarrow> (string \<times> string) option" where
  "match_here s =
     (if starts_with (tool_call_open @ [CHR 0x0A]) s
      then find_close (drop (length (tool_call_open @ [CHR 0x0A])) s)
      else None)"

lemma close_here_shorter: "close_here ts s = Some rest \<Longrightarrow> length rest \<le> length s"
  by (induction ts) (auto split: if_splits)

lemma find_close_shorter: "find_close s = Some (cap, rest) \<Longrightarrow> length rest \<le> length s"
proof (induction s arbitrary: cap rest)
  case Nil
  then show ?case by simp
next
  case (Cons c cs)
  show ?case
  proof (cases "close_here tool_call_closers (c # cs)")
    case (Some r)
    with Cons.prems close_here_shorter [of tool_call_closers "c # cs" r] show ?thesis by simp
  next
    case None
    with Cons.prems obtain cap' where "find_close cs = Some (cap', rest)"
      by (auto split: option.splits)
    from Cons.IH [OF this] show ?thesis by simp
  qed
qed

lemma match_here_shorter: "match_here s = Some (cap, rest) \<Longrightarrow> length rest < length s"
proof -
  assume m: "match_here s = Some (cap, rest)"
  then have st: "starts_with (tool_call_open @ [CHR 0x0A]) s"
    and fc: "find_close (drop (length (tool_call_open @ [CHR 0x0A])) s) = Some (cap, rest)"
    by (auto simp: match_here_def split: if_splits)
  from st have "length (take (length (tool_call_open @ [CHR 0x0A])) s)
      = length (tool_call_open @ [CHR 0x0A])"
    unfolding starts_with_def by simp
  then have "length (tool_call_open @ [CHR 0x0A]) \<le> length s"
    by simp
  with find_close_shorter [OF fc] show ?thesis
    by (simp add: tool_call_open_def)
qed

text \<open>
  \<open>re.findall(tool_call_pattern, content, re.DOTALL)\<close>: the captures of the matches
  from left to right, each search starting where the match before ended.
\<close>

function findall_tool_calls :: "string \<Rightarrow> string list" where
  "findall_tool_calls [] = []"
| "findall_tool_calls (c # cs) =
     (case match_here (c # cs) of
        Some (cap, rest) \<Rightarrow> cap # findall_tool_calls rest
      | None \<Rightarrow> findall_tool_calls cs)"
  by pat_completeness auto
termination
  by (relation "measure length") (auto dest: match_here_shorter)

text \<open>
  \<open>re.search(r"^(.*?)(?=<tool_call>)", content, re.DOTALL)\<close>: the text before
  the first opening tag, \<open>None\<close> when there is no opening tag.
\<close>

fun pre_tool_match :: "string \<Rightarrow> string option" where
  "pre_tool_match [] = None"
| "pre_tool_match (c # cs) =
     (if starts_with tool_call_open (c # cs) then Some []
      else (case pre_tool_match cs of Some g \<Rightarrow> Some (c # g) | None \<Rightarrow> None))"

subsection \<open>One tool call\<close>

text \<open>
  The branch of the \<open>if\<close>/\<open>elif\<close> chain for one decoded tool call: the canonical
  name and the parameters. \<open>thought\<close> is \<open>None\<close> while the variable is unbound.
\<close>

definition with_coordinate :: "pydict \<Rightarrow> pydict \<Rightarrow> exn + pydict" where
  "with_coordinate arguments params =
     bnd (getitem arguments ''coordinate'') (\<lambda>c.
     bnd (subscript_int c 0) (\<lambda>x.
     bnd (subscript_int c 1) (\<lambda>y.
     Inr (params @ [(''x'', x), (''y'', y)]))))"

definition with_optional_coordinate :: "pydict \<Rightarrow> pydict \<Rightarrow> exn + pydict" where
  "with_optional_coordinate arguments params =
     (if map_of arguments ''coordinate'' \<noteq> None then with_coordinate arguments params
      else Inr params)"

definition qwen_branch :: "string option \<Rightarrow> pydict \<Rightarrow> string \<Rightarrow> exn + (string \<times> pydict)" where
  "qwen_branch thought arguments action_name =
    (if action_name = ''key'' then
       bnd (getitem arguments ''keys'') (\<lambda>v. Inr (''hot_key'', [(''keys'', v)]))
     else if action_name = ''type'' then
       bnd (getitem arguments ''text'') (\<lambda>v. Inr (''type_text'', [(''text'', v)]))
     else if action_name = ''mouse_move'' then
       bnd (with_coordinate arguments []) (\<lambda>p. Inr (''move_mouse'', p))
     else if action_name = ''left_click'' then
       bnd (with_optional_coordinate arguments [(''button'', JStr ''left'')]) (\<lambda>p.
         Inr (''click'', p))
     else if action_name = ''left_click_drag'' then
       bnd (with_optional_coordinate arguments []) (\<lambda>p. Inr (''drag_mouse'', p))
     else if action_name = ''right_click'' then
       bnd (with_optional_coordinate arguments [(''button'', JStr ''right'')]) (\<lambda>p.
         Inr (''click'', p))
     else if action_name = ''middle_click'' then
       bnd (with_optional_coordinate arguments [(''button'', JStr ''middle'')]) (\<lambda>p.
         Inr (''click'', p))
     else if action_name = ''double_click'' then
       bnd (with_optional_coordinate arguments [(''button'', JStr ''left'')]) (\<lambda>p.
         Inr (''double_click'', p))
     else if action_name = ''scroll'' then
       bnd (getitem arguments ''pixels'') (\<lambda>pixels.
       bnd (py_floordiv pixels 10) (\<lambda>q. Inr (''scroll'', [(''clicks'', JInt q)])))
     else if action_name = ''wait'' then
       bnd (getitem arguments ''time'') (\<lambda>v. Inr (''wait'', [(''seconds'', v)]))
     else if action_name = ''terminate'' then
       bnd (getitem arguments ''status'') (\<lambda>st.
         (case st of
            JStr status \<Rightarrow>
              (case thought of
                 Some t \<Rightarrow> Inr (''result'', [(''value'', JStr (''Status: '' @ status @ '' '' @ t))])
               | None \<Rightarrow> Inl (UnboundLocalError ''thought''))
          | _ \<Rightarrow> Inl (TypeError ''can only concatenate str to str'')))
     else Inr (action_name, []))"

text \<open>
  One pass of the \<open>for tool_used in tools_used\<close> loop on the decoded tool call: the
  decoded value is printed, \<open>tool_used_json["arguments"]["action"]\<close> succeeds on a dict
  in a dict only, the name and the parameters are printed, and \<open>V1Action\<close> is built.
  A name that is not a string matches no branch, and \<open>V1Action\<close> refuses it.
\<close>

definition qwen_tool_call :: "console \<Rightarrow> string option \<Rightarrow> json \<Rightarrow> exn + V1Action" where
  "qwen_tool_call c thought tool_used_json =
     printing c (FoundToolUsage tool_used_json)
      (bnd (subscript_str tool_used_json ''arguments'') (\<lambda>args.
       bnd (subscript_str args ''action'') (\<lambda>a.
         (case (args, a) of
            (JObj arguments, JStr action_name) \<Rightarrow>
              bnd (qwen_branch thought arguments action_name) (\<lambda>(n, p).
                printing c (ParsedAction (JStr n))
                 (printing c (ParsedParams p)
                   (Inr \<lparr>name = n, parameters = p\<rparr>)))
          | _ \<Rightarrow>
              printing c (ParsedAction a)
               (printing c (ParsedParams [])
                 (Inl (ValidationError ''name: input should be a valid string'')))))))"

fun qwen_tool_calls :: "console \<Rightarrow> (string \<Rightarrow> json) \<Rightarrow> string option \<Rightarrow> string list
    \<Rightarrow> exn + V1Action list" where
  "qwen_tool_calls c loads thought [] = Inr []"
| "qwen_tool_calls c loads thought (tool_used # rest) =
     bnd (qwen_tool_call c thought (loads tool_used)) (\<lambda>action.
     bnd (qwen_tool_calls c loads thought rest) (\<lambda>output. Inr (action # output)))"

text \<open>
  \<open>parse_action(content)\<close>. The content is printed first. The JSON decoder
  \<open>json_repair.loads\<close> is a library outside the repository and is a parameter, as
  the console is. The final \<open>return thought, output\<close> reads \<open>thought\<close>, which is
  assigned only when the second expression matched.
\<close>

definition qwen_parse_action ::
    "console \<Rightarrow> (string \<Rightarrow> json) \<Rightarrow> string \<Rightarrow> exn + (string \<times> V1Action list)" where
  "qwen_parse_action c loads content =
     printing c (RawContent content)
      (let tools_used = map py_strip (findall_tool_calls content);
           thought = map_option py_strip (pre_tool_match content)
       in bnd (qwen_tool_calls c loads thought tools_used) (\<lambda>output.
            (case thought of
               Some t \<Rightarrow> Inr (t, output)
             | None \<Rightarrow> Inl (UnboundLocalError ''thought''))))"

text \<open>For the statements: the content has an opening tag somewhere.\<close>

definition has_open_tag :: "string \<Rightarrow> bool" where
  "has_open_tag s = (\<exists>a b. s = a @ tool_call_open @ b)"

section \<open>Vocabularies\<close>

text \<open>The fixed set of canonical action names the specification gives.\<close>

definition canonical_names :: "string list" where
  "canonical_names =
     [''click'', ''double_click'', ''drag_mouse'', ''move_mouse'', ''type_text'',
      ''hot_key'', ''scroll'', ''wait'', ''take_screenshots'', ''result'']"

text \<open>The action types \<open>cua_parse_action\<close> has a branch for.\<close>

definition cua_action_types :: "string list" where
  "cua_action_types =
     [''click'', ''double_click'', ''scroll'', ''type'', ''move'', ''keypress'', ''drag'', ''wait'']"

text \<open>The parameter keys each of those branches builds, by canonical name.\<close>

definition cua_parameter_keys :: "string \<Rightarrow> string list" where
  "cua_parameter_keys n =
     (if n = ''click'' then [''x'', ''y'', ''button'']
      else if n \<in> set [''double_click'', ''move_mouse'', ''drag_mouse''] then [''x'', ''y'']
      else if n = ''scroll'' then [''clicks'']
      else if n = ''type_text'' then [''text'']
      else if n = ''hot_key'' then [''keys'']
      else if n = ''wait'' then [''seconds'']
      else [])"

text \<open>The action names the qwen parser has a branch for.\<close>

definition qwen_action_names :: "string list" where
  "qwen_action_names =
     [''key'', ''type'', ''mouse_move'', ''left_click'', ''left_click_drag'', ''right_click'',
      ''middle_click'', ''double_click'', ''scroll'', ''wait'', ''terminate'']"

text \<open>The upper-case letters \<open>str.lower\<close> changes.\<close>

definition upper_case :: "char list" where
  "upper_case = ''ABCDEFGHIJKLMNOPQRSTUVWXYZ''"

section \<open>The step loop: task, device and retry\<close>

text \<open>
  Modelled from the spec: the \<open>TaskStatus\<close> enumeration of the task service is not in
  the sources; these are the five statuses the specification names. The agents test
  for \<open>CANCELING\<close> and \<open>CANCELED\<close> and assign \<open>CANCELED\<close>, \<open>FINISHED\<close> and
  \<open>FAILED\<close>.
\<close>

datatype TaskStatus = RUNNING | CANCELING | CANCELED | FINISHED | FAILED

text \<open>
  The messages the agents post to the task, by kind, with the data that is
  interpolated into each.
\<close>

datatype post =
    Starting string
  | DebugThread
  | Seen "json option"
  | Taking string
  | ActionResult string
  | CurrentImage string
  | Done json
  | Retrying string
  | ErrorTaking string
  | MaxStepsReached

text \<open>\<open>str(e)\<close>: the class name of an exception and its text.\<close>

fun class_name :: "exn \<Rightarrow> string" where
  "class_name (KeyError a) = ''KeyError''"
| "class_name (TypeError a) = ''TypeError''"
| "class_name (IndexError a) = ''IndexError''"
| "class_name (ValueError a) = ''ValueError''"
| "class_name (SystemError a) = ''SystemError''"
| "class_name (UnboundLocalError a) = ''UnboundLocalError''"
| "class_name (ZeroDivisionError a) = ''ZeroDivisionError''"
| "class_name (AttributeError a) = ''AttributeError''"
| "class_name (ValidationError a) = ''ValidationError''"
| "class_name (MarkupError a) = ''MarkupError''"
| "class_name (ExternalError a) = ''Exception''"
| "class_name (RetryError e) = ''RetryError''"

text \<open>
  A \<open>KeyError\<close> prints the key quoted. A \<open>RetryError\<close> prints the attempt it wraps,
  a future whose text has the class of the exception it holds and not the exception's
  text; the memory address in that text is left out here.
\<close>

fun py_str :: "exn \<Rightarrow> string" where
  "py_str (KeyError a) = [CHR 0x27] @ a @ [CHR 0x27]"
| "py_str (TypeError a) = a"
| "py_str (IndexError a) = a"
| "py_str (ValueError a) = a"
| "py_str (SystemError a) = a"
| "py_str (UnboundLocalError a) = a"
| "py_str (ZeroDivisionError a) = a"
| "py_str (AttributeError a) = a"
| "py_str (ValidationError a) = a"
| "py_str (MarkupError a) = a"
| "py_str (ExternalError a) = a"
| "py_str (RetryError e) =
     ''RetryError[<Future state=finished raised '' @ class_name e @ ''>]''"

text \<open>
  Everything a run of \<open>solve_task\<close> can change: the task (status, error, saves,
  posted messages, recorded actions), the device (the calls of \<open>device.use\<close>), the
  number of model calls, the number of attempts of \<open>take_action\<close> started so far, and
  the message list of the claude agent, which the agent extends in place.
\<close>

record world =
  task_description :: string
  task_remote :: bool
  task_status :: TaskStatus
  task_error :: "string option"
  task_saves :: nat
  task_posts :: "post list"
  task_actions :: "V1Action list"
  device_uses :: "(string \<times> pydict) list"
  model_calls :: nat
  attempts :: nat
  history :: "message list"

text \<open>
  What the collaborators outside the repository do during one attempt of
  \<open>take_action\<close>: the status \<open>task.refresh()\<close> brings, the outcome of the model call
  (the response, or the exception raised), whether \<open>device.find_action\<close> finds a name,
  what \<open>device.use\<close> returns or raises, the screenshot \<open>device.take_screenshots\<close>
  gives or the exception it raises, the exception \<open>task.record_action\<close> raises if it
  does, the tool result \<open>make_api_tool_result\<close> builds from a screenshot and the
  id of the tool use, and the console. A run is given this for every attempt, by
  number.
\<close>

record 'm env =
  refreshed :: TaskStatus
  model :: "exn + 'm"
  find_action :: "string \<Rightarrow> bool"
  use :: "string \<Rightarrow> pydict \<Rightarrow> exn + string"
  take_screenshots :: "exn + string"
  record_action :: "V1Action \<Rightarrow> exn option"
  make_api_tool_result :: "string \<Rightarrow> json \<Rightarrow> item"
  console_print :: console

definition post_message :: "post \<Rightarrow> world \<Rightarrow> world" where
  "post_message p w = w\<lparr>task_posts := task_posts w @ [p]\<rparr>"

definition save :: "world \<Rightarrow> world" where
  "save w = w\<lparr>task_saves := Suc (task_saves w)\<rparr>"

text \<open>\<open>if task.remote: task.refresh()\<close>\<close>

definition polled :: "'m env \<Rightarrow> world \<Rightarrow> world" where
  "polled e w = (if task_remote w then w\<lparr>task_status := refreshed e\<rparr> else w)"

text \<open>
  The cancellation check both agents start an attempt with: \<open>Some\<close> world when the
  attempt returns at once with \<open>done = True\<close>, \<open>None\<close> when it goes on.
\<close>

definition cancelled :: "world \<Rightarrow> world option" where
  "cancelled w =
     (if task_status w = CANCELING \<or> task_status w = CANCELED
      then Some (if task_status w = CANCELING then save (w\<lparr>task_status := CANCELED\<rparr>) else w)
      else None)"

text \<open>
  \<open>task.record_action(...)\<close>: the action joins the task's record unless the call
  raises.
\<close>

definition recording :: "'m env \<Rightarrow> V1Action \<Rightarrow> world \<Rightarrow> (exn + unit) \<times> world" where
  "recording e a w =
     (case record_action e a of
        Some x \<Rightarrow> (Inl x, w)
      | None \<Rightarrow> (Inr (), w\<lparr>task_actions := task_actions w @ [a]\<rparr>))"

text \<open>
  \<open>device.use(action, **params)\<close> inside \<open>try ... except Exception as e: raise
  ValueError(f"Trouble using action: {e}")\<close>. The call reaches the device whether or
  not it raises.
\<close>

definition using_action :: "'m env \<Rightarrow> string \<Rightarrow> pydict \<Rightarrow> world \<Rightarrow> (exn + string) \<times> world" where
  "using_action e action_name params w =
     (let w' = w\<lparr>device_uses := device_uses w @ [(action_name, params)]\<rparr>
      in case use e action_name params of
           Inl x \<Rightarrow> (Inl (ValueError (''Trouble using action: '' @ py_str x)), w')
         | Inr action_response \<Rightarrow> (Inr action_response, w'))"

text \<open>
  \<open>console.print(...)\<close> in the world \<open>w\<close>, before the rest \<open>k\<close> of the attempt:
  when the console raises, the attempt raises there.
\<close>

definition console_printing ::
    "'m env \<Rightarrow> printed \<Rightarrow> world \<Rightarrow> (exn + 'a) \<times> world \<Rightarrow> (exn + 'a) \<times> world" where
  "console_printing e p w k = (case console_print e p of Some x \<Rightarrow> (Inl x, w) | None \<Rightarrow> k)"

text \<open>\<open>if action_response: task.post_message(...)\<close>\<close>

definition post_response :: "string \<Rightarrow> world \<Rightarrow> world" where
  "post_response action_response w =
     (if action_response \<noteq> [] then post_message (ActionResult action_response) w else w)"

text \<open>
  The \<open>except Exception as e\<close> clause that closes \<open>take_action\<close>: a message, and the
  exception raised again.
\<close>

definition reraising :: "(exn + 'r) \<times> world \<Rightarrow> (exn + 'r) \<times> world" where
  "reraising r =
     (case r of
        (Inl x, w) \<Rightarrow> (Inl x, post_message (Retrying (py_str x)) w)
      | (Inr v, w) \<Rightarrow> (Inr v, w))"

text \<open>
  The decorator \<open>@retry(stop=stop_after_attempt(5), ...)\<close> of the tenacity library,
  which is outside the repository: it calls the function again after every exception,
  and when the last allowed attempt has raised it raises \<open>RetryError\<close> around that
  attempt (the decorator is used without \<open>reraise=True\<close>). \<open>further\<close> is the number
  of attempts allowed after this one.
\<close>

definition stop_after_attempt :: nat where
  "stop_after_attempt = 5"

fun retrying :: "nat \<Rightarrow> (nat \<Rightarrow> 'm env) \<Rightarrow> ('m env \<Rightarrow> world \<Rightarrow> (exn + 'r) \<times> world)
    \<Rightarrow> world \<Rightarrow> (exn + 'r) \<times> world" where
  "retrying 0 envs attempt w =
     (case attempt (envs (attempts w)) (w\<lparr>attempts := Suc (attempts w)\<rparr>) of
        (Inr v, w') \<Rightarrow> (Inr v, w')
      | (Inl x, w') \<Rightarrow> (Inl (RetryError x), w'))"
| "retrying (Suc further) envs attempt w =
     (case attempt (envs (attempts w)) (w\<lparr>attempts := Suc (attempts w)\<rparr>) of
        (Inr v, w') \<Rightarrow> (Inr v, w')
      | (Inl x, w') \<Rightarrow> retrying further envs attempt w')"

text \<open>
  What \<open>solve_task\<close> does when \<open>take_action\<close> raises, and when the steps are used up.
\<close>

definition fail_task :: "exn \<Rightarrow> world \<Rightarrow> world" where
  "fail_task x w =
     post_message (ErrorTaking (py_str x))
       (save (w\<lparr>task_status := FAILED, task_error := Some (py_str x)\<rparr>))"

definition max_steps_reached :: "world \<Rightarrow> world" where
  "max_steps_reached w = post_message MaxStepsReached (save (w\<lparr>task_status := FAILED\<rparr>))"

section \<open>The claude agent (claude\_computer\_use/agent.py)\<close>

text \<open>
  The parsed response: the stop reason and \<open>response_params\<close>, a list of content
  blocks (dicts with a \<open>type\<close>; a text block has \<open>text\<close>, a tool use has \<open>id\<close> and
  \<open>input\<close>).
\<close>

record response =
  stop_reason :: string
  response_params :: "item list"

text \<open>\<open>content_block["type"]\<close> and \<open>content_block[k]\<close>\<close>

fun block_type :: "item \<Rightarrow> exn + string" where
  "block_type (DictItem (Some t) c p) = Inr t"
| "block_type (DictItem None c p) = Inl (KeyError ''type'')"
| "block_type (RawItem p) = Inl (TypeError ''string indices must be integers'')"

fun block_get :: "item \<Rightarrow> string \<Rightarrow> exn + json" where
  "block_get (DictItem t c p) k = getitem p k"
| "block_get (RawItem p) k = Inl (TypeError ''string indices must be integers'')"

text \<open>
  The \<open>end_turn\<close> branch: the first block's text is posted and becomes the value of
  the recorded \<open>result\<close> action; the task is \<open>FINISHED\<close> before the screenshot is
  taken and the action recorded.
\<close>

definition claude_end_turn :: "response env \<Rightarrow> response \<Rightarrow> world \<Rightarrow> (exn + bool) \<times> world" where
  "claude_end_turn e r w =
     (case response_params r of
        [] \<Rightarrow> (Inl (IndexError ''list index out of range''), w)
      | first # rest \<Rightarrow>
          (case block_get first ''text'' of
             Inl x \<Rightarrow> (Inl x, w)
           | Inr text \<Rightarrow>
               (let w1 = save ((post_message (Done text) w)\<lparr>task_status := FINISHED\<rparr>)
                in case take_screenshots e of
                     Inl x \<Rightarrow> (Inl x, w1)
                   | Inr screenshot_img \<Rightarrow>
                       (case recording e \<lparr>name = ''result'', parameters = [(''value'', text)]\<rparr> w1 of
                          (Inl x, w2) \<Rightarrow> (Inl x, w2)
                        | (Inr u, w2) \<Rightarrow> (Inr True, w2)))))"

text \<open>
  One \<open>tool_use\<close> block: the name from the table (a \<open>KeyError\<close> for a name the table
  does not have), the print of the action found, the lookup on the device and its
  print, the dispatch unless the action is the screenshot (with the print of what the
  device answered inside the same \<open>try\<close>), the screenshot, the tool result for the
  next request and the record.
\<close>

definition claude_tool_use :: "response env \<Rightarrow> item \<Rightarrow> world \<Rightarrow> (exn + item) \<times> world" where
  "claude_tool_use e content_block w =
     (case block_get content_block ''input'' of
        Inl x \<Rightarrow> (Inl x, w)
      | Inr (JObj input_args) \<Rightarrow>
          (case tool_use_action input_args of
             Inl x \<Rightarrow> (Inl x, w)
           | Inr (action_name, action_params) \<Rightarrow>
               console_printing e (FoundAction action_name input_args) w
                (let w1 = post_message (Taking action_name) w in
                 if \<not> find_action e action_name
                 then console_printing e (NotFound action_name) w1
                        (Inl (SystemError ''action not found''), w1)
                 else
                   console_printing e (FoundOnDevice action_name) w1
                    (case (if action_name \<noteq> ''take_screenshots''
                           then (case get_mapped_action_params action_name action_params of
                                   Inl x \<Rightarrow>
                                     (Inl (ValueError (''Trouble using action: '' @ py_str x)), w1)
                                 | Inr mapped \<Rightarrow>
                                     (case using_action e action_name mapped w1 of
                                        (Inl x, w2) \<Rightarrow> (Inl x, w2)
                                      | (Inr action_response, w2) \<Rightarrow>
                                          (case console_print e (ActionOutput action_response) of
                                             Some x \<Rightarrow>
                                               (Inl (ValueError
                                                  (''Trouble using action: '' @ py_str x)), w2)
                                           | None \<Rightarrow>
                                               (Inr mapped, post_response action_response w2))))
                           else (Inr action_params, w1)) of
                       (Inl x, w2) \<Rightarrow> (Inl x, w2)
                     | (Inr params, w2) \<Rightarrow>
                         (case take_screenshots e of
                            Inl x \<Rightarrow> (Inl x, w2)
                          | Inr screenshot_img \<Rightarrow>
                              (let w3 = post_message (CurrentImage screenshot_img) w2 in
                               case block_get content_block ''id'' of
                                 Inl x \<Rightarrow> (Inl x, w3)
                               | Inr tool_use_id \<Rightarrow>
                                   (case recording e \<lparr>name = action_name, parameters = params\<rparr> w3 of
                                      (Inl x, w4) \<Rightarrow> (Inl x, w4)
                                    | (Inr u, w4) \<Rightarrow>
                                        (Inr (make_api_tool_result e screenshot_img tool_use_id),
                                         w4)))))))
      | Inr other \<Rightarrow> (Inl (TypeError ''indices must be integers''), w))"

text \<open>
  The loop over the content blocks; \<open>tool_result_content\<close> collects the tool results.
  A text block is posted, printed and added to the thought; a text that is not a
  string cannot be added.
\<close>

fun claude_blocks :: "response env \<Rightarrow> item list \<Rightarrow> string \<Rightarrow> item list \<Rightarrow> world
    \<Rightarrow> (exn + item list) \<times> world" where
  "claude_blocks e [] thought tool_result_content w = (Inr tool_result_content, w)"
| "claude_blocks e (content_block # rest) thought tool_result_content w =
     (case block_type content_block of
        Inl x \<Rightarrow> (Inl x, w)
      | Inr ty \<Rightarrow>
          if ty = ''text'' then
            (case block_get content_block ''text'' of
               Inr (JStr text) \<Rightarrow>
                 (case console_print e (BlockText (Some (JStr text))) of
                    Some x \<Rightarrow> (Inl x, post_message (Seen (Some (JStr text))) w)
                  | None \<Rightarrow>
                      claude_blocks e rest (thought @ text @ [CHR 0x0A]) tool_result_content
                        (post_message (Seen (Some (JStr text))) w))
             | Inr other \<Rightarrow>
                 console_printing e (BlockText (Some other)) (post_message (Seen (Some other)) w)
                   (Inl (TypeError ''unsupported operand type(s) for +''),
                    post_message (Seen (Some other)) w)
             | Inl missing \<Rightarrow>
                 console_printing e (BlockText None) (post_message (Seen None) w)
                   (Inl (TypeError ''unsupported operand type(s) for +''),
                    post_message (Seen None) w))
          else if ty = ''tool_use'' then
            (case claude_tool_use e content_block w of
               (Inl x, w') \<Rightarrow> (Inl x, w')
             | (Inr tool_result, w') \<Rightarrow>
                 claude_blocks e rest thought (tool_result_content @ [tool_result]) w')
          else claude_blocks e rest thought tool_result_content w)"

text \<open>
  The body of \<open>take_action\<close> after the cancellation check: trimming with the literals
  3 and 2, the model call, the assistant turn appended to the messages, then the
  \<open>end_turn\<close> branch or the blocks. With no tool result the attempt returns
  \<open>done = True\<close>.
\<close>

definition claude_act :: "response env \<Rightarrow> world \<Rightarrow> (exn + bool) \<times> world" where
  "claude_act e w =
     (case maybe_filter_to_n_most_recent_images (history w) 3 2 of
        Inl x \<Rightarrow> (Inl x, w)
      | Inr trimmed \<Rightarrow>
          (let w1 = w\<lparr>history := trimmed, model_calls := Suc (model_calls w)\<rparr> in
           case model e of
             Inl x \<Rightarrow> (Inl x, w1)
           | Inr r \<Rightarrow>
               (let w2 = w1\<lparr>history := history w1 @
                            [\<lparr>msg_role = ''assistant'', msg_content = Items (response_params r)\<rparr>]\<rparr>
                in if stop_reason r = ''end_turn'' then claude_end_turn e r w2
                   else
                     (case claude_blocks e (response_params r) [] [] w2 of
                        (Inl x, w3) \<Rightarrow> (Inl x, w3)
                      | (Inr tool_result_content, w3) \<Rightarrow>
                          if tool_result_content = [] then (Inr True, w3)
                          else (Inr False,
                                w3\<lparr>history := history w3 @
                                  [\<lparr>msg_role = ''user'',
                                    msg_content = Items tool_result_content\<rparr>]\<rparr>)))))"

definition claude_attempt :: "response env \<Rightarrow> world \<Rightarrow> (exn + bool) \<times> world" where
  "claude_attempt e w =
     reraising
       (case cancelled (polled e w) of
          Some w' \<Rightarrow> (Inr True, w')
        | None \<Rightarrow> claude_act e (polled e w))"

definition claude_take_action :: "(nat \<Rightarrow> response env) \<Rightarrow> world \<Rightarrow> (exn + bool) \<times> world" where
  "claude_take_action envs w = retrying (stop_after_attempt - 1) envs claude_attempt w"

text \<open>The \<open>for i in range(max_steps)\<close> loop of \<open>solve_task\<close>.\<close>

fun claude_steps :: "nat \<Rightarrow> (nat \<Rightarrow> response env) \<Rightarrow> world \<Rightarrow> world" where
  "claude_steps 0 envs w = max_steps_reached w"
| "claude_steps (Suc n) envs w =
     (case claude_take_action envs w of
        (Inl x, w') \<Rightarrow> fail_task x w'
      | (Inr done, w') \<Rightarrow> if done then w' else claude_steps n envs w')"

text \<open>
  \<open>solve_task\<close> for a desktop device: the two opening messages, the message list
  with the task description, and the loop. What comes between the messages and the
  loop, the info of the desktop and the description of the tool, is read and printed
  without the task or the device being touched, and is taken to go through.
\<close>

definition claude_solve_task :: "nat \<Rightarrow> (nat \<Rightarrow> response env) \<Rightarrow> world \<Rightarrow> world" where
  "claude_solve_task max_steps envs w =
     claude_steps max_steps envs
       ((post_message DebugThread (post_message (Starting (task_description w)) w))
          \<lparr>history := [\<lparr>msg_role = ''user'',
              msg_content = Items [DictItem (Some ''text'') Missing
                                     [(''text'', JStr (task_description w))]]\<rparr>]\<rparr>)"

section \<open>The cua agent (cua/agent.py)\<close>

text \<open>
  The \<open>Step\<close> an actor returns, as far as \<open>take_action\<close> reads it: the action
  (\<open>None\<close> when the response had none) and the raw response.
\<close>

record Step =
  action :: "V1Action option"
  raw_response :: string

text \<open>
  The body of \<open>take_action\<close> after the cancellation check. \<open>actor.act\<close> is the model
  call. No step, or a step without action, is skipped with \<open>done = False\<close>. The
  action the device has and what the device answered are printed, the answer between
  the dispatch and the record. The task a step carries is the task it was made for,
  so \<open>task = step.task\<close> changes nothing.
\<close>

definition cua_act :: "Step option env \<Rightarrow> world \<Rightarrow> (exn + Step option \<times> bool) \<times> world" where
  "cua_act e w =
     (let w1 = w\<lparr>model_calls := Suc (model_calls w)\<rparr> in
      case model e of
        Inl x \<Rightarrow> (Inl x, w1)
      | Inr None \<Rightarrow> (Inr (None, False), w1)
      | Inr (Some step) \<Rightarrow>
          (case action step of
             None \<Rightarrow> (Inr (None, False), w1)
           | Some a \<Rightarrow>
               if name a = ''result'' then
                 (case getitem (parameters a) ''value'' of
                    Inl x \<Rightarrow> (Inl x, w1)
                  | Inr v \<Rightarrow>
                      (case recording e a
                              (save ((post_message (Done v) w1)\<lparr>task_status := FINISHED\<rparr>)) of
                         (Inl x, w2) \<Rightarrow> (Inl x, w2)
                       | (Inr u, w2) \<Rightarrow> (Inr (Some step, True), w2)))
               else if \<not> find_action e (name a)
               then console_printing e (NotFound (name a)) w1
                      (Inl (SystemError ''action not found''), w1)
               else
                 console_printing e (FoundOnDevice (name a)) w1
                  (case using_action e (name a) (parameters a) w1 of
                     (Inl x, w2) \<Rightarrow> (Inl x, w2)
                   | (Inr action_response, w2) \<Rightarrow>
                       console_printing e (ActionOutput action_response) w2
                        (case recording e a (post_response action_response w2) of
                           (Inl x, w3) \<Rightarrow> (Inl x, w3)
                         | (Inr u, w3) \<Rightarrow> (Inr (Some step, False), w3)))))"

definition cua_attempt :: "Step option env \<Rightarrow> world \<Rightarrow> (exn + Step option \<times> bool) \<times> world" where
  "cua_attempt e w =
     reraising
       (case cancelled (polled e w) of
          Some w' \<Rightarrow> (Inr (None, True), w')
        | None \<Rightarrow> cua_act e (polled e w))"

definition cua_take_action ::
    "(nat \<Rightarrow> Step option env) \<Rightarrow> world \<Rightarrow> (exn + Step option \<times> bool) \<times> world" where
  "cua_take_action envs w = retrying (stop_after_attempt - 1) envs cua_attempt w"

text \<open>
  The loop of \<open>solve_task\<close>; \<open>steps\<close> is the list \<open>history\<close> of the source, to which
  every step that was taken is appended.
\<close>

fun cua_steps :: "nat \<Rightarrow> (nat \<Rightarrow> Step option env) \<Rightarrow> Step list \<Rightarrow> world \<Rightarrow> Step list \<times> world" where
  "cua_steps 0 envs steps w = (steps, max_steps_reached w)"
| "cua_steps (Suc n) envs steps w =
     (case cua_take_action envs w of
        (Inl x, w') \<Rightarrow> (steps, fail_task x w')
      | (Inr (step, done), w') \<Rightarrow>
          (let steps' = (case step of Some s \<Rightarrow> steps @ [s] | None \<Rightarrow> steps)
           in if done then (steps', w') else cua_steps n envs steps' w'))"

text \<open>
  \<open>solve_task\<close> for a desktop device: the two opening messages and the loop. The
  schema of the tools and the info of the desktop, read and printed in between, are
  taken to go through.
\<close>

definition cua_solve_task :: "nat \<Rightarrow> (nat \<Rightarrow> Step option env) \<Rightarrow> world \<Rightarrow> Step list \<times> world" where
  "cua_solve_task max_steps envs w =
     cua_steps max_steps envs []
       (post_message DebugThread (post_message (Starting (task_description w)) w))"

section \<open>Predicates and scenarios for the statements\<close>

text \<open>
  No model call, no device action, nothing recorded or posted, no error stored and the
  messages as they were.
\<close>

definition untouched :: "world \<Rightarrow> world \<Rightarrow> bool" where
  "untouched w w' \<longleftrightarrow>
     model_calls w' = model_calls w \<and> device_uses w' = device_uses w \<and>
     task_actions w' = task_actions w \<and> task_posts w' = task_posts w \<and>
     task_error w' = task_error w \<and> history w' = history w"

text \<open>The cancellation check lets the attempt go on.\<close>

definition active :: "'m env \<Rightarrow> world \<Rightarrow> bool" where
  "active e w \<longleftrightarrow> cancelled (polled e w) = None"

text \<open>
  A content block the claude loop passes without raising and without acting: not a
  tool use, and if it is a text block its text is a string that the console prints.
\<close>

definition plain_block :: "response env \<Rightarrow> item \<Rightarrow> bool" where
  "plain_block e b =
     (case block_type b of
        Inl x \<Rightarrow> False
      | Inr ty \<Rightarrow> ty \<noteq> ''tool_use'' \<and>
          (ty = ''text'' \<longrightarrow>
             (case block_get b ''text'' of
                Inr (JStr t) \<Rightarrow> console_print e (BlockText (Some (JStr t))) = None
              | _ \<Rightarrow> False)))"

text \<open>
  Nothing recorded or dispatched in between, and the task as it was but for the
  messages posted.
\<close>

definition same_task :: "world \<Rightarrow> world \<Rightarrow> bool" where
  "same_task w w' \<longleftrightarrow>
     task_actions w' = task_actions w \<and> device_uses w' = device_uses w \<and>
     task_status w' = task_status w \<and> task_error w' = task_error w \<and>
     task_saves w' = task_saves w \<and> task_remote w' = task_remote w"


text \<open>A local task that has just been started.\<close>

definition fresh_task :: world where
  "fresh_task =
     \<lparr>task_description = ''open the browser'', task_remote = False, task_status = RUNNING,
      task_error = None, task_saves = 0, task_posts = [], task_actions = [],
      device_uses = [], model_calls = 0, attempts = 0, history = []\<rparr>"

text \<open>
  A desktop, a task service and a console that work: every canonical action is found,
  every call returns, and the model call has the given outcome.
\<close>

definition desktop :: "exn + 'm \<Rightarrow> 'm env" where
  "desktop m =
     \<lparr>refreshed = RUNNING, model = m,
      find_action = (\<lambda>n. n \<in> set canonical_names),
      use = (\<lambda>n p. Inr []),
      take_screenshots = Inr ''png'',
      record_action = (\<lambda>a. None),
      make_api_tool_result = (\<lambda>img i. DictItem (Some ''tool_result'')
         (Blocks [DictBlock (Some ''image'') img]) [(''tool_use_id'', i)]),
      console_print = plain_console\<rparr>"

text \<open>A step of the cua actor with a click.\<close>

definition click_step :: Step where
  "click_step =
     \<lparr>action = Some \<lparr>name = ''click'',
         parameters = [(''x'', JInt 24), (''y'', JInt 150), (''button'', JStr ''left'')]\<rparr>,
      raw_response = ''computer_call''\<rparr>"



text \<open>The cua actor finds no step in the response.\<close>

definition silent :: "nat \<Rightarrow> Step option env" where
  "silent i = desktop (Inr None)"

text \<open>
  The claude model answers with text only and stops for a reason other than
  \<open>end_turn\<close>.
\<close>

definition musing :: "nat \<Rightarrow> response env" where
  "musing i = desktop (Inr \<lparr>stop_reason = ''max_tokens'',
     response_params = [DictItem (Some ''text'') Missing [(''text'', JStr ''Let me think'')]]\<rparr>)"



text \<open>The claude model call raises on every attempt.\<close>

definition model_down :: "nat \<Rightarrow> response env" where
  "model_down i = desktop (Inl (ExternalError ''overloaded''))"

text \<open>
  The cua model gives the click on every attempt and the device raises \<open>boom\<close>
  on every use.
\<close>

definition broken_device :: "nat \<Rightarrow> Step option env" where
  "broken_device i = (desktop (Inr (Some click_step)))
     \<lparr>use := (\<lambda>n p. Inl (ExternalError ''boom''))\<rparr>"






text \<open>
  A console that cannot render the closing tag in two texts, and a run of each agent
  that meets one of them: a claude response of text only, and a device whose answer
  to the click holds the tag.
\<close>

definition tag_console :: console where
  "tag_console p =
     (if p = BlockText (Some (JStr ''Let me think [/b]'')) \<or> p = ActionOutput ''[/b]''
      then Some (MarkupError ''closing tag [/b] does not match any open tag'')
      else None)"

definition musing_in_markup :: "nat \<Rightarrow> response env" where
  "musing_in_markup i = (desktop (Inr \<lparr>stop_reason = ''max_tokens'',
     response_params = [DictItem (Some ''text'') Missing [(''text'', JStr ''Let me think [/b]'')]]\<rparr>))
     \<lparr>console_print := tag_console\<rparr>"

definition answering_in_markup :: "nat \<Rightarrow> Step option env" where
  "answering_in_markup i = (desktop (Inr (Some click_step)))
     \<lparr>use := (\<lambda>n p. Inr ''[/b]''), console_print := tag_console\<rparr>"

section \<open>Sequencing and lookup\<close>

lemma bnd_Inr_iff: "bnd m f = Inr r \<longleftrightarrow> (\<exists>v. m = Inr v \<and> f v = Inr r)"
  by (cases m) simp_all

lemma getitem_Some: "map_of d k = Some v \<Longrightarrow> getitem d k = Inr v"
  by (simp add: getitem_def)

lemma getitem_Inr_iff: "getitem d k = Inr v \<longleftrightarrow> map_of d k = Some v"
  by (simp add: getitem_def split: option.splits)

section \<open>Properties of context trimming\<close>

lemma images_items:
  "filter is_image (concat (map iter_content (filter is_tool_result xs))) = concat (map item_images xs)"
  by (induction xs) (auto simp: item_images_def)

lemma images_of_concat:
  "images_of ms = concat (map item_images (concat (map items_of ms)))"
  unfolding images_of_def tool_result_blocks_def by (rule images_items)

lemma trim_content_images:
  "filter is_image (fst (trim_content n bs)) = drop (nat n) (filter is_image bs)"
  by (induction bs arbitrary: n) (simp_all add: case_prod_beta drop_Cons' nat_diff_distrib)

lemma trim_content_counter:
  "nat (snd (trim_content n bs)) = nat n - length (filter is_image bs)"
  by (induction bs arbitrary: n) (simp_all add: case_prod_beta nat_diff_distrib)

lemma trim_content_rest:
  "filter (\<lambda>b. \<not> is_image b) (fst (trim_content n bs)) = filter (\<lambda>b. \<not> is_image b) bs"
  by (induction bs arbitrary: n) (simp_all add: case_prod_beta)

lemma trim_item_images:
  "item_images (fst (trim_item n it)) = drop (nat n) (item_images it)"
  by (cases "(n, it)" rule: trim_item.cases)
     (simp_all add: item_images_def case_prod_beta trim_content_images)

lemma trim_item_counter:
  "nat (snd (trim_item n it)) = nat n - length (item_images it)"
  by (cases "(n, it)" rule: trim_item.cases)
     (simp_all add: item_images_def case_prod_beta trim_content_counter)

lemma trim_item_skeleton:
  "skeleton_item (fst (trim_item n it)) = skeleton_item it"
  by (cases "(n, it)" rule: trim_item.cases)
     (simp_all add: case_prod_beta trim_content_rest)

lemma items_images_Nil: "items_images [] = []"
  by (simp add: items_images_def)

lemma trim_items_images:
  "items_images (fst (trim_items n its)) = drop (nat n) (items_images its)"
  by (induction its arbitrary: n)
     (simp_all add: items_images_def case_prod_beta trim_item_images trim_item_counter)

lemma trim_items_counter:
  "nat (snd (trim_items n its)) = nat n - length (items_images its)"
  by (induction its arbitrary: n)
     (simp_all add: items_images_def case_prod_beta trim_item_counter)

lemma trim_items_skeleton:
  "map skeleton_item (fst (trim_items n its)) = map skeleton_item its"
  by (induction its arbitrary: n) (simp_all add: case_prod_beta trim_item_skeleton)

lemma trim_message_images:
  "items_images (items_of (fst (trim_message n m))) = drop (nat n) (items_images (items_of m))"
  by (cases "msg_content m") (simp_all add: case_prod_beta trim_items_images items_images_Nil)

lemma trim_message_counter:
  "nat (snd (trim_message n m)) = nat n - length (items_images (items_of m))"
  by (cases "msg_content m") (simp_all add: case_prod_beta trim_items_counter items_images_Nil)

lemma trim_message_skeleton:
  "skeleton_message (fst (trim_message n m)) = skeleton_message m"
  by (cases "msg_content m") (simp_all add: case_prod_beta trim_items_skeleton)

lemma images_of_Cons: "images_of (m # ms) = items_images (items_of m) @ images_of ms"
  by (simp add: images_of_concat items_images_def)

lemma trim_messages_images:
  "images_of (fst (trim_messages n ms)) = drop (nat n) (images_of ms)"
proof (induction ms arbitrary: n)
  case Nil
  show ?case by (simp add: images_of_def tool_result_blocks_def)
next
  case (Cons m ms)
  show ?case
    by (simp only: trim_messages.simps case_prod_beta fst_conv images_of_Cons Cons.IH
        trim_message_images trim_message_counter drop_append)
qed

lemma trim_messages_skeleton:
  "skeleton (fst (trim_messages n ms)) = skeleton ms"
  unfolding skeleton_def
  by (induction ms arbitrary: n) (simp_all only: trim_messages.simps case_prod_beta fst_conv list.map trim_message_skeleton)

lemma trim_messages_length:
  "length (fst (trim_messages n ms)) = length ms"
  by (induction ms arbitrary: n) (simp_all only: trim_messages.simps case_prod_beta fst_conv list.size)

lemma total_ten: "total_images ten_shots = 10"
  by (simp add: total_images_def images_of_def tool_result_blocks_def ten_shots_def shot_def)

text \<open>
  Claim C1. The trimmer returns the history as it is when \<open>images_to_keep\<close> is 0.
  Otherwise, for a threshold other than zero, it computes
  \<open>to_remove = total_images - images_to_keep\<close>, takes
  \<open>k = to_remove - to_remove mod min_removal_threshold\<close> (a multiple of the threshold,
  and for a positive threshold the greatest one not above \<open>to_remove\<close>), and the images
  left are the old ones without the first \<open>k\<close> (none is removed when \<open>k\<close> is not
  positive); everything that is not an image stays. With ten images, three to keep and
  threshold two, six images go and the four newest remain.
\<close>

theorem context_trimming:
  "maybe_filter_to_n_most_recent_images messages 0 thr = Inr messages \<and>
   (keep \<noteq> 0 \<and> thr \<noteq> 0 \<longrightarrow>
      (\<exists>out k.
         maybe_filter_to_n_most_recent_images messages keep thr = Inr out \<and>
         k = (total_images messages - keep) - (total_images messages - keep) mod thr \<and>
         thr dvd k \<and>
         (0 < thr \<longrightarrow> k \<le> total_images messages - keep \<and> total_images messages - keep < k + thr) \<and>
         images_of out = drop (nat k) (images_of messages) \<and>
         total_images out = total_images messages - min (total_images messages) (max 0 k) \<and>
         skeleton out = skeleton messages \<and>
         length out = length messages)) \<and>
   (total_images messages = 10 \<longrightarrow>
      (\<exists>out.
         maybe_filter_to_n_most_recent_images messages 3 2 = Inr out \<and>
         images_of out = drop 6 (images_of messages) \<and>
         total_images out = 4 \<and>
         skeleton out = skeleton messages))"
proof (intro conjI impI)
  show "maybe_filter_to_n_most_recent_images messages 0 thr = Inr messages"
    by (simp add: maybe_filter_to_n_most_recent_images_def)
next
  assume h: "keep \<noteq> 0 \<and> thr \<noteq> 0"
  define r where "r = total_images messages - keep"
  define k where "k = r - r mod thr"
  define out where "out = fst (trim_messages k messages)"
  have run: "maybe_filter_to_n_most_recent_images messages keep thr = Inr out"
    using h by (simp add: maybe_filter_to_n_most_recent_images_def Let_def out_def k_def r_def)
  have dv: "thr dvd k"
    unfolding k_def by (simp add: minus_mod_eq_mult_div)
  have rnd: "0 < thr \<longrightarrow> k \<le> r \<and> r < k + thr"
    unfolding k_def by (auto)
  have im: "images_of out = drop (nat k) (images_of messages)"
    unfolding out_def by (rule trim_messages_images)
  have cnt: "total_images out = total_images messages - min (total_images messages) (max 0 k)"
    unfolding total_images_def im by auto
  have sk: "skeleton out = skeleton messages"
    unfolding out_def by (rule trim_messages_skeleton)
  have len: "length out = length messages"
    unfolding out_def by (rule trim_messages_length)
  show "\<exists>out k.
         maybe_filter_to_n_most_recent_images messages keep thr = Inr out \<and>
         k = (total_images messages - keep) - (total_images messages - keep) mod thr \<and>
         thr dvd k \<and>
         (0 < thr \<longrightarrow> k \<le> total_images messages - keep \<and> total_images messages - keep < k + thr) \<and>
         images_of out = drop (nat k) (images_of messages) \<and>
         total_images out = total_images messages - min (total_images messages) (max 0 k) \<and>
         skeleton out = skeleton messages \<and>
         length out = length messages"
    using run dv rnd im cnt sk len unfolding k_def r_def by blast
next
  assume t: "total_images messages = 10"
  define out where "out = fst (trim_messages 6 messages)"
  have run: "maybe_filter_to_n_most_recent_images messages 3 2 = Inr out"
    using t by (simp add: maybe_filter_to_n_most_recent_images_def Let_def out_def)
  have im: "images_of out = drop 6 (images_of messages)"
    unfolding out_def using trim_messages_images [of 6 messages] by simp
  have cnt: "total_images out = 4"
    using t unfolding total_images_def im by simp
  have sk: "skeleton out = skeleton messages"
    unfolding out_def by (rule trim_messages_skeleton)
  show "\<exists>out.
         maybe_filter_to_n_most_recent_images messages 3 2 = Inr out \<and>
         images_of out = drop 6 (images_of messages) \<and>
         total_images out = 4 \<and>
         skeleton out = skeleton messages"
    using run im cnt sk by blast
qed

lemma ten_shots_trimmed:
  "maybe_filter_to_n_most_recent_images ten_shots 3 2 =
     Inr (\<lparr>msg_role = ''user'', msg_content = Items [DictItem (Some ''text'') Missing [(''text'', JStr ''task'')]]\<rparr> #
          map (\<lambda>p. \<lparr>msg_role = ''user'', msg_content = Items [DictItem (Some ''tool_result'')
                    (Blocks [DictBlock (Some ''text'') ''ok'']) [(''tool_use_id'', JStr ''id'')]]\<rparr>)
              [''png0'', ''png1'', ''png2'', ''png3'', ''png4'', ''png5''] @
          map shot [''png6'', ''png7'', ''png8'', ''png9''])"
  by (simp add: maybe_filter_to_n_most_recent_images_def total_ten Let_def)
     (simp add: ten_shots_def shot_def)

text \<open>The theorem of C1 at the history of ten screenshots.\<close>

theorem context_trimming_witness:
  "maybe_filter_to_n_most_recent_images ten_shots 0 2 = Inr ten_shots \<and>
   total_images ten_shots = 10 \<and>
   (\<exists>out.
      maybe_filter_to_n_most_recent_images ten_shots 3 2 = Inr out \<and>
      images_of out = map (DictBlock (Some ''image'')) [''png6'', ''png7'', ''png8'', ''png9''] \<and>
      total_images out = 4 \<and>
      skeleton out = skeleton ten_shots)"
proof -
  have im: "drop 6 (images_of ten_shots) = map (DictBlock (Some ''image'')) [''png6'', ''png7'', ''png8'', ''png9'']"
    by (simp add: images_of_def tool_result_blocks_def ten_shots_def shot_def)
  show ?thesis
    using context_trimming [of ten_shots 2 3] total_ten im by simp
qed

lemma trimming_zero_threshold:
  "keep \<noteq> 0 \<Longrightarrow> maybe_filter_to_n_most_recent_images messages keep 0 =
     Inl (ZeroDivisionError ''integer division or modulo by zero'')"
  by (simp add: maybe_filter_to_n_most_recent_images_def)

section \<open>Scroll conversion\<close>

text \<open>
  Claim C4, as amended. The cua dialect turns an integer pixel delta \<open>scroll_y\<close> into
  clicks by floor-dividing by 10 and then negating (\<open>-30\<close> gives 3, 23 gives \<open>-2\<close>).
  The qwen dialect, whose \<open>pixels\<close> already count upwards as positive, floor-divides by
  10 and keeps the sign (\<open>-30\<close> gives \<open>-3\<close>, 23 gives 2).
\<close>

theorem scroll_conversion:
  "(map_of action_args ''scroll_y'' = Some (JInt d) \<longrightarrow>
      cua_parse_action ''scroll'' action_args =
        Inr (Some \<lparr>name = ''scroll'', parameters = [(''clicks'', JInt (- (d div 10)))]\<rparr>)) \<and>
   (map_of arguments ''pixels'' = Some (JInt d) \<longrightarrow>
      qwen_branch thought arguments ''scroll'' =
        Inr (''scroll'', [(''clicks'', JInt (d div 10))]))"
  by (simp add: cua_parse_action_def qwen_branch_def getitem_Some)

text \<open>The theorem of C4 at the pixel deltas \<open>-30\<close> and 23 of the claim.\<close>

theorem scroll_conversion_witness:
  "cua_parse_action ''scroll'' [(''x'', JInt 24), (''y'', JInt 150), (''scroll_x'', JInt 0),
       (''scroll_y'', JInt (- 30))] =
     Inr (Some \<lparr>name = ''scroll'', parameters = [(''clicks'', JInt 3)]\<rparr>) \<and>
   cua_parse_action ''scroll'' [(''x'', JInt 24), (''y'', JInt 150), (''scroll_x'', JInt 0),
       (''scroll_y'', JInt 23)] =
     Inr (Some \<lparr>name = ''scroll'', parameters = [(''clicks'', JInt (- 2))]\<rparr>) \<and>
   qwen_branch None [(''action'', JStr ''scroll''), (''pixels'', JInt (- 30))] ''scroll'' =
     Inr (''scroll'', [(''clicks'', JInt (- 3))]) \<and>
   qwen_branch None [(''action'', JStr ''scroll''), (''pixels'', JInt 23)] ''scroll'' =
     Inr (''scroll'', [(''clicks'', JInt 2)])"
  using
    scroll_conversion [of "[(''x'', JInt 24), (''y'', JInt 150), (''scroll_x'', JInt 0),
       (''scroll_y'', JInt (- 30))]" "- 30"
       "[(''action'', JStr ''scroll''), (''pixels'', JInt (- 30))]" None]
    scroll_conversion [of "[(''x'', JInt 24), (''y'', JInt 150), (''scroll_x'', JInt 0),
       (''scroll_y'', JInt 23)]" 23
       "[(''action'', JStr ''scroll''), (''pixels'', JInt 23)]" None]
  by simp

text \<open>
  Against C4 as stated: the scroll example of the qwen parser's own file, a pixel delta
  of \<open>-30\<close>, yields \<open>-3\<close> clicks, not 3.
\<close>

theorem qwen_scroll_keeps_sign:
  "qwen_tool_call plain_console (Some ''Thought: Scrolling down'')
     (JObj [(''name'', JStr ''computer_use''),
            (''arguments'', JObj [(''action'', JStr ''scroll''), (''pixels'', JInt (- 30))])]) =
   Inr \<lparr>name = ''scroll'', parameters = [(''clicks'', JInt (- 3))]\<rparr>"
  by (simp add: qwen_tool_call_def qwen_branch_def getitem_def printing_def plain_console_def)

section \<open>Hot keys\<close>

lemma lower_char_not_upper: "lower_char c \<notin> set upper_case"
  unfolding lower_char_def upper_case_def
  by (simp split: option.splits if_splits)

lemma py_lower_not_upper: "set (py_lower s) \<inter> set upper_case = {}"
  unfolding py_lower_def using lower_char_not_upper by auto

lemma py_split_not_Nil: "py_split sep s \<noteq> []"
  by (induction s) (auto split: list.splits)

lemma length_py_split: "length (py_split sep s) = Suc (count_list s sep)"
  by (induction s) (auto split: list.splits simp: py_split_not_Nil)

lemma hot_key_keys_length: "length (hot_key_keys text) = Suc (count_list text (CHR ''+''))"
  by (simp add: hot_key_keys_def length_py_split)

lemma hot_key_keys_clean:
  assumes "k \<in> set (hot_key_keys text)"
  shows "CHR ''_'' \<notin> set k \<and> set k \<inter> set upper_case = {}"
proof -
  from assms obtain w where k: "k = strip_underscores (py_lower (py_strip w))"
    unfolding hot_key_keys_def by auto
  have "set k \<subseteq> set (py_lower (py_strip w))"
    unfolding k strip_underscores_def by auto
  with py_lower_not_upper [of "py_strip w"] have "set k \<inter> set upper_case = {}" by blast
  moreover have "CHR ''_'' \<notin> set k" unfolding k strip_underscores_def by simp
  ultimately show ?thesis by simp
qed

lemma cua_keys_strings:
  "\<exists>out. cua_keys (map JStr ks) = Inr (map JStr out) \<and> length out = length ks \<and>
     (\<forall>i<length ks.
        (case map_of CUA_KEY_TO_AGENTDESK_KEY (py_lower (ks ! i)) of
           Some v \<Rightarrow> out ! i = v
         | None \<Rightarrow> out ! i = py_lower (ks ! i)))"
proof (induction ks)
  case Nil
  show ?case by simp
next
  case (Cons k ks)
  then obtain out where o: "cua_keys (map JStr ks) = Inr (map JStr out)" "length out = length ks"
    and p: "\<forall>i<length ks.
        (case map_of CUA_KEY_TO_AGENTDESK_KEY (py_lower (ks ! i)) of
           Some v \<Rightarrow> out ! i = v
         | None \<Rightarrow> out ! i = py_lower (ks ! i))"
    by blast
  define h where "h = (case map_of CUA_KEY_TO_AGENTDESK_KEY (py_lower k) of
           Some v \<Rightarrow> v | None \<Rightarrow> py_lower k)"
  have ck: "cua_key (JStr k) = Inr (JStr h)"
    by (simp add: cua_key_def h_def Let_def split: option.splits)
  have r: "cua_keys (map JStr (k # ks)) = Inr (map JStr (h # out))"
    by (simp add: ck o)
  have "\<forall>i<length (k # ks).
        (case map_of CUA_KEY_TO_AGENTDESK_KEY (py_lower ((k # ks) ! i)) of
           Some v \<Rightarrow> (h # out) ! i = v
         | None \<Rightarrow> (h # out) ! i = py_lower ((k # ks) ! i))"
  proof (intro allI impI)
    fix i assume "i < length (k # ks)"
    then show "(case map_of CUA_KEY_TO_AGENTDESK_KEY (py_lower ((k # ks) ! i)) of
           Some v \<Rightarrow> (h # out) ! i = v
         | None \<Rightarrow> (h # out) ! i = py_lower ((k # ks) ! i))"
      using p by (cases i) (auto simp: h_def split: option.splits)
  qed
  with r o(2) show ?case
    by (intro exI [of _ "h # out"]) simp
qed

text \<open>
  Claim C8, as amended. The claude dialect splits the key string at \<open>+\<close>, strips,
  lower-cases and removes underscores, and resolves no alias: there is one key per
  \<open>+\<close>-separated part, no key has an underscore or an upper-case letter,
  \<open>ctrl+c\<close> gives \<open>[ctrl, c]\<close> and \<open>Cmd+Shift_Key\<close> gives \<open>[cmd, shiftkey]\<close>.
  The cua dialect takes a list of keys, lower-cases each and resolves it through the
  alias table (\<open>esc\<close> to \<open>escape\<close>, \<open>cmd\<close> and \<open>super\<close> to \<open>command\<close>,
  \<open>option\<close> to \<open>alt\<close>); a key the table does not have passes through lower-cased,
  underscores kept.
\<close>

theorem hot_key_canonicalization:
  "get_mapped_action_params ''hot_key'' [(''text'', JStr text)] =
     Inr [(''keys'', JList (map JStr (hot_key_keys text)))] \<and>
   length (hot_key_keys text) = Suc (count_list text (CHR ''+'')) \<and>
   (\<forall>k \<in> set (hot_key_keys text). CHR ''_'' \<notin> set k \<and> set k \<inter> set upper_case = {}) \<and>
   hot_key_keys ''ctrl+c'' = [''ctrl'', ''c''] \<and>
   hot_key_keys ''Cmd+Shift_Key'' = [''cmd'', ''shiftkey''] \<and>
   (\<exists>out.
      cua_parse_action ''keypress'' [(''keys'', JList (map JStr ks))] =
        Inr (Some \<lparr>name = ''hot_key'', parameters = [(''keys'', JList (map JStr out))]\<rparr>) \<and>
      length out = length ks \<and>
      (\<forall>i<length ks.
         (case map_of CUA_KEY_TO_AGENTDESK_KEY (py_lower (ks ! i)) of
            Some v \<Rightarrow> out ! i = v
          | None \<Rightarrow> out ! i = py_lower (ks ! i)))) \<and>
   map_of CUA_KEY_TO_AGENTDESK_KEY ''esc'' = Some ''escape'' \<and>
   map_of CUA_KEY_TO_AGENTDESK_KEY ''cmd'' = Some ''command'' \<and>
   map_of CUA_KEY_TO_AGENTDESK_KEY ''super'' = Some ''command'' \<and>
   map_of CUA_KEY_TO_AGENTDESK_KEY ''option'' = Some ''alt''"
proof (intro conjI)
  show "get_mapped_action_params ''hot_key'' [(''text'', JStr text)] =
     Inr [(''keys'', JList (map JStr (hot_key_keys text)))]"
    by (simp add: get_mapped_action_params_def map_coordinate_def map_hot_key_def
        map_press_key_def getitem_def)
  show "length (hot_key_keys text) = Suc (count_list text (CHR ''+''))"
    by (rule hot_key_keys_length)
  show "\<forall>k \<in> set (hot_key_keys text). CHR ''_'' \<notin> set k \<and> set k \<inter> set upper_case = {}"
    using hot_key_keys_clean by blast
  show "hot_key_keys ''ctrl+c'' = [''ctrl'', ''c'']"
    by (simp add: hot_key_keys_def py_strip_def is_space_def py_lower_def lower_char_def
        strip_underscores_def)
  show "hot_key_keys ''Cmd+Shift_Key'' = [''cmd'', ''shiftkey'']"
    by (simp add: hot_key_keys_def py_strip_def is_space_def py_lower_def lower_char_def
        strip_underscores_def)
  from cua_keys_strings [of ks] obtain out where
    o: "cua_keys (map JStr ks) = Inr (map JStr out)" "length out = length ks"
     "\<forall>i<length ks.
        (case map_of CUA_KEY_TO_AGENTDESK_KEY (py_lower (ks ! i)) of
           Some v \<Rightarrow> out ! i = v
         | None \<Rightarrow> out ! i = py_lower (ks ! i))"
    by blast
  have "cua_parse_action ''keypress'' [(''keys'', JList (map JStr ks))] =
        Inr (Some \<lparr>name = ''hot_key'', parameters = [(''keys'', JList (map JStr out))]\<rparr>)"
    by (simp add: cua_parse_action_def getitem_def o(1))
  with o(2,3) show "\<exists>out.
      cua_parse_action ''keypress'' [(''keys'', JList (map JStr ks))] =
        Inr (Some \<lparr>name = ''hot_key'', parameters = [(''keys'', JList (map JStr out))]\<rparr>) \<and>
      length out = length ks \<and>
      (\<forall>i<length ks.
         (case map_of CUA_KEY_TO_AGENTDESK_KEY (py_lower (ks ! i)) of
            Some v \<Rightarrow> out ! i = v
          | None \<Rightarrow> out ! i = py_lower (ks ! i)))"
    by blast
qed (simp_all add: CUA_KEY_TO_AGENTDESK_KEY_def)

lemma cua_keypress_example:
  "cua_parse_action ''keypress'' [(''keys'', JList [JStr ''Cmd'', JStr ''Shift_Key''])] =
     Inr (Some \<lparr>name = ''hot_key'',
                 parameters = [(''keys'', JList [JStr ''command'', JStr ''shift_key''])]\<rparr>)"
  by (simp add: cua_parse_action_def getitem_def cua_key_def py_lower_def lower_char_def
      CUA_KEY_TO_AGENTDESK_KEY_def)

text \<open>The theorem of C8 at the key strings of the claim.\<close>

theorem hot_key_canonicalization_witness:
  "get_mapped_action_params ''hot_key'' [(''text'', JStr ''Cmd+Shift_Key'')] =
     Inr [(''keys'', JList [JStr ''cmd'', JStr ''shiftkey''])] \<and>
   get_mapped_action_params ''hot_key'' [(''text'', JStr ''ctrl+c'')] =
     Inr [(''keys'', JList [JStr ''ctrl'', JStr ''c''])] \<and>
   ''cmd'' \<in> set (hot_key_keys ''Cmd+Shift_Key'') \<and>
   CHR ''_'' \<notin> set ''shiftkey''"
  using hot_key_canonicalization [of "''Cmd+Shift_Key''" "[]"]
    hot_key_canonicalization [of "''ctrl+c''" "[]"]
  by simp

text \<open>
  Against C8 as stated: the claude dialect gives \<open>Cmd+Shift_Key\<close> as
  \<open>[cmd, shiftkey]\<close>, where \<open>cmd\<close> is not resolved to its alias \<open>command\<close>; the
  cua dialect, which does resolve it, keeps the underscore of \<open>shift_key\<close>.
\<close>

theorem claude_hot_key_no_alias:
  "get_mapped_action_params ''hot_key'' [(''text'', JStr ''Cmd+Shift_Key'')] =
     Inr [(''keys'', JList [JStr ''cmd'', JStr ''shiftkey''])] \<and>
   map_of CUA_KEY_TO_AGENTDESK_KEY ''cmd'' = Some ''command'' \<and>
   cua_parse_action ''keypress'' [(''keys'', JList [JStr ''Cmd'', JStr ''Shift_Key''])] =
     Inr (Some \<lparr>name = ''hot_key'',
                 parameters = [(''keys'', JList [JStr ''command'', JStr ''shift_key''])]\<rparr>)"
proof (intro conjI)
  show "get_mapped_action_params ''hot_key'' [(''text'', JStr ''Cmd+Shift_Key'')] =
     Inr [(''keys'', JList [JStr ''cmd'', JStr ''shiftkey''])]"
    by (simp add: get_mapped_action_params_def map_coordinate_def map_hot_key_def
        map_press_key_def getitem_def hot_key_keys_def py_strip_def is_space_def py_lower_def
        lower_char_def strip_underscores_def)
  show "map_of CUA_KEY_TO_AGENTDESK_KEY ''cmd'' = Some ''command''"
    by (simp add: CUA_KEY_TO_AGENTDESK_KEY_def)
  show "cua_parse_action ''keypress'' [(''keys'', JList [JStr ''Cmd'', JStr ''Shift_Key''])] =
     Inr (Some \<lparr>name = ''hot_key'',
                 parameters = [(''keys'', JList [JStr ''command'', JStr ''shift_key''])]\<rparr>)"
    by (rule cua_keypress_example)
qed

section \<open>Canonical names and parameters\<close>

lemma cua_parse_action_names:
  assumes "cua_parse_action t args = Inr (Some a)"
  shows "t \<in> set cua_action_types \<and> name a \<in> set canonical_names \<and>
         map fst (parameters a) = cua_parameter_keys (name a)"
  using assms unfolding cua_parse_action_def cua_action_types_def canonical_names_def
  by (auto simp: bnd_Inr_iff cua_parameter_keys_def split: if_splits)

lemma cua_parse_action_recognized:
  assumes "t \<in> set cua_action_types"
  shows "cua_parse_action t args \<noteq> Inr None"
  using assms unfolding cua_parse_action_def cua_action_types_def
  by (auto simp: bnd_Inr_iff)

lemma with_coordinate_keys:
  "with_coordinate arguments p0 = Inr p \<Longrightarrow> map fst p = map fst p0 @ [''x'', ''y'']"
  unfolding with_coordinate_def by (auto simp: bnd_Inr_iff)

lemma with_optional_coordinate_keys:
  "with_optional_coordinate arguments p0 = Inr p \<Longrightarrow>
     map fst p = map fst p0 @ (if map_of arguments ''coordinate'' \<noteq> None then [''x'', ''y''] else [])"
  unfolding with_optional_coordinate_def by (auto dest: with_coordinate_keys split: if_splits)

lemma qwen_terminate:
  assumes "qwen_branch th arguments ''terminate'' = Inr (n, p)"
  shows "n = ''result''"
proof (cases "getitem arguments ''status''")
  case (Inl e)
  with assms show ?thesis by (simp add: qwen_branch_def)
next
  case (Inr v)
  with assms show ?thesis
    by (cases v; cases th) (simp_all add: qwen_branch_def)
qed

lemma qwen_branch_names:
  assumes "an \<in> set qwen_action_names" and "qwen_branch th arguments an = Inr (n, p)"
  shows "n \<in> set canonical_names \<and>
         (n \<in> set [''click'', ''double_click''] \<longrightarrow> ''button'' \<in> set (map fst p)) \<and>
         (n \<in> set [''click'', ''double_click'', ''drag_mouse''] \<longrightarrow>
            (''x'' \<in> set (map fst p) \<and> ''y'' \<in> set (map fst p)
               \<longleftrightarrow> map_of arguments ''coordinate'' \<noteq> None))"
proof (cases "an = ''terminate''")
  case True
  with assms(2) have "n = ''result''" by (simp add: qwen_terminate)
  then show ?thesis by (simp add: canonical_names_def)
next
  case False
  with assms show ?thesis
    unfolding qwen_branch_def qwen_action_names_def canonical_names_def
    by (auto simp: bnd_Inr_iff split: if_splits
        dest!: with_optional_coordinate_keys with_coordinate_keys)
qed

lemma action_mapping_names:
  assumes "map_of action_mapping k = Some n"
  shows "n \<in> set canonical_names \<or> (k = ''cursor_position'' \<and> n = ''mouse_coordinates'')"
  using assms unfolding action_mapping_def canonical_names_def
  by (auto split: if_splits)

text \<open>
  Claim C9, as amended. When the cua parser returns an action, the action type is one
  of its eight, the name is in the fixed vocabulary and the parameters are exactly the
  keys of its branch (\<open>x\<close>, \<open>y\<close>, \<open>button\<close> for a click); for a recognized type it
  never returns \<open>None\<close>. When the qwen parser returns for a recognized name, the name
  is in the fixed vocabulary and a click or double click has its \<open>button\<close>, but
  \<open>x\<close> and \<open>y\<close> of a click, double click or drag are present exactly when the
  payload has a \<open>coordinate\<close>. The claude table maps every name it has into the fixed
  vocabulary except \<open>cursor_position\<close>, which it maps to \<open>mouse_coordinates\<close>.
\<close>

theorem canonical_actions:
  "(cua_parse_action t args = Inr (Some a) \<longrightarrow>
      t \<in> set cua_action_types \<and> name a \<in> set canonical_names \<and>
      map fst (parameters a) = cua_parameter_keys (name a)) \<and>
   (t \<in> set cua_action_types \<longrightarrow> cua_parse_action t args \<noteq> Inr None) \<and>
   (an \<in> set qwen_action_names \<and> qwen_branch th arguments an = Inr (n, p) \<longrightarrow>
      n \<in> set canonical_names \<and>
      (n \<in> set [''click'', ''double_click''] \<longrightarrow> ''button'' \<in> set (map fst p)) \<and>
      (n \<in> set [''click'', ''double_click'', ''drag_mouse''] \<longrightarrow>
         (''x'' \<in> set (map fst p) \<and> ''y'' \<in> set (map fst p)
            \<longleftrightarrow> map_of arguments ''coordinate'' \<noteq> None))) \<and>
   (map_of action_mapping k = Some m \<longrightarrow>
      m \<in> set canonical_names \<or> (k = ''cursor_position'' \<and> m = ''mouse_coordinates''))"
  using cua_parse_action_names [of t args a] cua_parse_action_recognized [of t args]
    qwen_branch_names [of an th arguments n p] action_mapping_names [of k m]
  by blast

text \<open>The theorem of C9 at a cua click, a qwen left click and the claude left click.\<close>

theorem canonical_actions_witness:
  "cua_parse_action ''click'' [(''x'', JInt 24), (''y'', JInt 150)] =
     Inr (Some \<lparr>name = ''click'',
                 parameters = [(''x'', JInt 24), (''y'', JInt 150), (''button'', JStr ''left'')]\<rparr>) \<and>
   ''click'' \<in> set cua_action_types \<and>
   ''click'' \<in> set canonical_names \<and>
   cua_parameter_keys ''click'' = [''x'', ''y'', ''button''] \<and>
   ''left_click'' \<in> set qwen_action_names \<and>
   qwen_branch None [(''action'', JStr ''left_click''), (''coordinate'', JList [JInt 1240, JInt 783])]
       ''left_click'' =
     Inr (''click'', [(''button'', JStr ''left''), (''x'', JInt 1240), (''y'', JInt 783)]) \<and>
   map_of action_mapping ''left_click'' = Some ''click''"
proof -
  have c: "cua_parse_action ''click'' [(''x'', JInt 24), (''y'', JInt 150)] =
     Inr (Some \<lparr>name = ''click'',
                 parameters = [(''x'', JInt 24), (''y'', JInt 150), (''button'', JStr ''left'')]\<rparr>)"
    by (simp add: cua_parse_action_def getitem_def)
  have q: "qwen_branch None
       [(''action'', JStr ''left_click''), (''coordinate'', JList [JInt 1240, JInt 783])]
       ''left_click'' =
     Inr (''click'', [(''button'', JStr ''left''), (''x'', JInt 1240), (''y'', JInt 783)])"
    by (simp add: qwen_branch_def with_optional_coordinate_def with_coordinate_def getitem_def)
  have m: "map_of action_mapping ''left_click'' = Some ''click''"
    by (simp add: action_mapping_def)
  have k: "cua_parameter_keys ''click'' = [''x'', ''y'', ''button'']"
    by (simp add: cua_parameter_keys_def)
  have qn: "''left_click'' \<in> set qwen_action_names"
    by (simp add: qwen_action_names_def)
  from canonical_actions [of "''click''" "[(''x'', JInt 24), (''y'', JInt 150)]"
      "\<lparr>name = ''click'',
        parameters = [(''x'', JInt 24), (''y'', JInt 150), (''button'', JStr ''left'')]\<rparr>"
      "''left_click''" None
      "[(''action'', JStr ''left_click''), (''coordinate'', JList [JInt 1240, JInt 783])]"
      "''click''" "[(''button'', JStr ''left''), (''x'', JInt 1240), (''y'', JInt 783)]"
      "''left_click''" "''click''"] c q m qn
  have "''click'' \<in> set cua_action_types \<and> ''click'' \<in> set canonical_names"
    by simp
  with c q m k qn show ?thesis by simp
qed

text \<open>
  Against C9 as stated: the claude dialect turns its recognized name
  \<open>cursor_position\<close> into \<open>mouse_coordinates\<close>, which is not in the fixed
  vocabulary, and the qwen dialect turns a \<open>left_click\<close> without coordinate into a
  click without \<open>x\<close> and \<open>y\<close>.
\<close>

theorem cursor_position_outside_vocabulary:
  "tool_use_action [(''action'', JStr ''cursor_position'')] = Inr (''mouse_coordinates'', []) \<and>
   ''mouse_coordinates'' \<notin> set canonical_names \<and>
   qwen_tool_call plain_console (Some ''Thought: clicking'')
     (JObj [(''name'', JStr ''computer_use''),
            (''arguments'', JObj [(''action'', JStr ''left_click'')])]) =
     Inr \<lparr>name = ''click'', parameters = [(''button'', JStr ''left'')]\<rparr>"
  by (simp add: tool_use_action_def mapped_name_def action_mapping_def getitem_def
      canonical_names_def qwen_tool_call_def qwen_branch_def with_optional_coordinate_def
      printing_def plain_console_def)

section \<open>Properties of the qwen parser\<close>

lemma starts_with_iff: "starts_with p s \<longleftrightarrow> (\<exists>b. s = p @ b)"
proof
  assume "starts_with p s"
  then have "s = p @ drop (length p) s"
    unfolding starts_with_def by (metis append_take_drop_id)
  then show "\<exists>b. s = p @ b" ..
next
  assume "\<exists>b. s = p @ b"
  then show "starts_with p s" unfolding starts_with_def by auto
qed

lemma has_open_tag_Cons:
  "has_open_tag (c # cs) \<longleftrightarrow> starts_with tool_call_open (c # cs) \<or> has_open_tag cs"
proof
  assume "has_open_tag (c # cs)"
  then obtain a b where e: "c # cs = a @ tool_call_open @ b"
    unfolding has_open_tag_def by blast
  show "starts_with tool_call_open (c # cs) \<or> has_open_tag cs"
  proof (cases a)
    case Nil
    with e show ?thesis by (auto simp: starts_with_iff)
  next
    case (Cons x xs)
    with e have "cs = xs @ tool_call_open @ b" by simp
    then show ?thesis unfolding has_open_tag_def by blast
  qed
next
  assume "starts_with tool_call_open (c # cs) \<or> has_open_tag cs"
  then show "has_open_tag (c # cs)"
  proof
    assume "starts_with tool_call_open (c # cs)"
    then obtain b where "c # cs = [] @ tool_call_open @ b"
      by (auto simp: starts_with_iff)
    then show ?thesis unfolding has_open_tag_def by blast
  next
    assume "has_open_tag cs"
    then obtain a b where "cs = a @ tool_call_open @ b"
      unfolding has_open_tag_def by blast
    then have "c # cs = (c # a) @ tool_call_open @ b" by simp
    then show ?thesis unfolding has_open_tag_def by blast
  qed
qed

lemma has_open_tag_Nil: "\<not> has_open_tag []"
  by (simp add: has_open_tag_def tool_call_open_def)

lemma pre_tool_match_None: "pre_tool_match s = None \<longleftrightarrow> \<not> has_open_tag s"
  by (induction s) (auto simp: has_open_tag_Nil has_open_tag_Cons split: option.splits)

lemma match_here_needs_tag: "\<not> has_open_tag s \<Longrightarrow> match_here s = None"
proof (rule ccontr)
  assume n: "\<not> has_open_tag s" and "match_here s \<noteq> None"
  then have "starts_with (tool_call_open @ [CHR 0x0A]) s"
    by (auto simp: match_here_def split: if_splits)
  then obtain b where "s = [] @ tool_call_open @ (CHR 0x0A # b)"
    by (auto simp: starts_with_iff)
  then have "has_open_tag s" unfolding has_open_tag_def by blast
  with n show False by simp
qed

lemma findall_needs_tag: "\<not> has_open_tag s \<Longrightarrow> findall_tool_calls s = []"
proof (induction s)
  case Nil
  show ?case by simp
next
  case (Cons c cs)
  from Cons.prems have "\<not> has_open_tag cs" by (simp add: has_open_tag_Cons)
  with Cons.IH Cons.prems show ?case by (simp add: match_here_needs_tag)
qed

text \<open>
  Claim C10. The qwen parser is not total: on every content without an opening
  \<open><tool_call>\<close> tag it raises instead of returning a pair, whatever the JSON decoder
  is. No tool call is found, \<open>thought\<close> is never assigned, and the final
  \<open>return thought, output\<close> raises \<open>UnboundLocalError\<close>, unless the console has
  already raised on the print of the content.
\<close>

theorem qwen_parse_action_not_total:
  "\<not> has_open_tag content \<Longrightarrow>
     qwen_parse_action c loads content =
       (case c (RawContent content) of
          Some x \<Rightarrow> Inl x
        | None \<Rightarrow> Inl (UnboundLocalError ''thought''))"
proof -
  assume n: "\<not> has_open_tag content"
  then have "pre_tool_match content = None" by (simp add: pre_tool_match_None)
  moreover from n have "findall_tool_calls content = []" by (rule findall_needs_tag)
  ultimately show ?thesis by (simp add: qwen_parse_action_def printing_def)
qed

text \<open>The theorem of C10 at a plain sentence.\<close>

theorem qwen_parse_action_not_total_witness:
  "\<not> has_open_tag ''The task is complete.'' \<and>
   qwen_parse_action plain_console (\<lambda>s. JNull) ''The task is complete.'' =
     Inl (UnboundLocalError ''thought'')"
proof -
  have "pre_tool_match ''The task is complete.'' = None"
    by (simp add: starts_with_def tool_call_open_def)
  then have n: "\<not> has_open_tag ''The task is complete.''"
    using pre_tool_match_None [of "''The task is complete.''"] by blast
  from qwen_parse_action_not_total [OF n, of plain_console "\<lambda>s. JNull"]
  have "qwen_parse_action plain_console (\<lambda>s. JNull) ''The task is complete.'' =
     Inl (UnboundLocalError ''thought'')"
    by (simp add: plain_console_def)
  with n show ?thesis by (rule conjI)
qed

section \<open>Properties of the step loop\<close>

lemma retrying_returns:
  "attempt (envs (attempts w)) (w\<lparr>attempts := Suc (attempts w)\<rparr>) = (Inr v, w') \<Longrightarrow>
     retrying n envs attempt w = (Inr v, w')"
  by (cases n) simp_all


lemma retrying_gives_up:
  "attempt (envs (attempts w)) (w\<lparr>attempts := Suc (attempts w)\<rparr>) = (Inl x, w') \<Longrightarrow>
     retrying 0 envs attempt w = (Inl (RetryError x), w')"
  by simp

lemma polled_attempts: "polled e (w\<lparr>attempts := k\<rparr>) = (polled e w)\<lparr>attempts := k\<rparr>"
  by (simp add: polled_def)

lemma claude_attempt_canceling:
  assumes "task_status (polled e w) = CANCELING"
  shows "claude_attempt e w = (Inr True, save ((polled e w)\<lparr>task_status := CANCELED\<rparr>))"
  using assms by (simp add: claude_attempt_def cancelled_def reraising_def)

lemma claude_attempt_canceled:
  assumes "task_status (polled e w) = CANCELED"
  shows "claude_attempt e w = (Inr True, polled e w)"
  using assms by (simp add: claude_attempt_def cancelled_def reraising_def)

lemma cua_attempt_canceling:
  assumes "task_status (polled e w) = CANCELING"
  shows "cua_attempt e w = (Inr (None, True), save ((polled e w)\<lparr>task_status := CANCELED\<rparr>))"
  using assms by (simp add: cua_attempt_def cancelled_def reraising_def)

lemma cua_attempt_canceled:
  assumes "task_status (polled e w) = CANCELED"
  shows "cua_attempt e w = (Inr (None, True), polled e w)"
  using assms by (simp add: cua_attempt_def cancelled_def reraising_def)

text \<open>
  Claim C5. When the status the step starts with (after the refresh of a remote task)
  is \<open>CANCELING\<close>, \<open>take_action\<close> of either agent returns \<open>done\<close> on its first
  attempt, the task is saved as \<open>CANCELED\<close>, the loop stops there, and there was no
  model call, no device action, no record and no message. When the status is already
  \<open>CANCELED\<close> the same holds and the task is not even saved.
\<close>

theorem cancelled_step_stops:
  "(task_status (polled (envs (attempts w)) w) = CANCELING \<longrightarrow>
      (\<exists>w'. claude_take_action envs w = (Inr True, w') \<and>
            claude_steps (Suc n) envs w = w' \<and>
            task_status w' = CANCELED \<and> task_saves w' = Suc (task_saves w) \<and>
            untouched w w')) \<and>
   (task_status (polled (envs (attempts w)) w) = CANCELED \<longrightarrow>
      (\<exists>w'. claude_take_action envs w = (Inr True, w') \<and>
            claude_steps (Suc n) envs w = w' \<and>
            task_status w' = CANCELED \<and> task_saves w' = task_saves w \<and>
            untouched w w')) \<and>
   (task_status (polled (cenvs (attempts w)) w) = CANCELING \<longrightarrow>
      (\<exists>w'. cua_take_action cenvs w = (Inr (None, True), w') \<and>
            cua_steps (Suc n) cenvs steps w = (steps, w') \<and>
            task_status w' = CANCELED \<and> task_saves w' = Suc (task_saves w) \<and>
            untouched w w')) \<and>
   (task_status (polled (cenvs (attempts w)) w) = CANCELED \<longrightarrow>
      (\<exists>w'. cua_take_action cenvs w = (Inr (None, True), w') \<and>
            cua_steps (Suc n) cenvs steps w = (steps, w') \<and>
            task_status w' = CANCELED \<and> task_saves w' = task_saves w \<and>
            untouched w w'))"
proof (intro conjI impI)
  let ?e = "envs (attempts w)"
  let ?w = "w\<lparr>attempts := Suc (attempts w)\<rparr>"
  assume c: "task_status (polled ?e w) = CANCELING"
  then have "task_status (polled ?e ?w) = CANCELING" by (simp add: polled_attempts)
  from claude_attempt_canceling [OF this]
  have t: "claude_take_action envs w = (Inr True, save ((polled ?e ?w)\<lparr>task_status := CANCELED\<rparr>))"
    unfolding claude_take_action_def by (rule retrying_returns)
  show "\<exists>w'. claude_take_action envs w = (Inr True, w') \<and>
            claude_steps (Suc n) envs w = w' \<and>
            task_status w' = CANCELED \<and> task_saves w' = Suc (task_saves w) \<and>
            untouched w w'"
    by (rule exI [of _ "save ((polled ?e ?w)\<lparr>task_status := CANCELED\<rparr>)"])
       (simp add: t save_def polled_attempts untouched_def, simp add: polled_def)
next
  let ?e = "envs (attempts w)"
  let ?w = "w\<lparr>attempts := Suc (attempts w)\<rparr>"
  assume c: "task_status (polled ?e w) = CANCELED"
  then have c': "task_status (polled ?e ?w) = CANCELED" by (simp add: polled_attempts)
  from claude_attempt_canceled [OF this]
  have t: "claude_take_action envs w = (Inr True, polled ?e ?w)"
    unfolding claude_take_action_def by (rule retrying_returns)
  show "\<exists>w'. claude_take_action envs w = (Inr True, w') \<and>
            claude_steps (Suc n) envs w = w' \<and>
            task_status w' = CANCELED \<and> task_saves w' = task_saves w \<and>
            untouched w w'"
    using c' by (intro exI [of _ "polled ?e ?w"]) (simp add: t polled_attempts untouched_def, simp add: polled_def)
next
  let ?e = "cenvs (attempts w)"
  let ?w = "w\<lparr>attempts := Suc (attempts w)\<rparr>"
  assume c: "task_status (polled ?e w) = CANCELING"
  then have "task_status (polled ?e ?w) = CANCELING" by (simp add: polled_attempts)
  from cua_attempt_canceling [OF this]
  have t: "cua_take_action cenvs w =
      (Inr (None, True), save ((polled ?e ?w)\<lparr>task_status := CANCELED\<rparr>))"
    unfolding cua_take_action_def by (rule retrying_returns)
  show "\<exists>w'. cua_take_action cenvs w = (Inr (None, True), w') \<and>
            cua_steps (Suc n) cenvs steps w = (steps, w') \<and>
            task_status w' = CANCELED \<and> task_saves w' = Suc (task_saves w) \<and>
            untouched w w'"
    by (rule exI [of _ "save ((polled ?e ?w)\<lparr>task_status := CANCELED\<rparr>)"])
       (simp add: t save_def polled_attempts untouched_def, simp add: polled_def)
next
  let ?e = "cenvs (attempts w)"
  let ?w = "w\<lparr>attempts := Suc (attempts w)\<rparr>"
  assume c: "task_status (polled ?e w) = CANCELED"
  then have c': "task_status (polled ?e ?w) = CANCELED" by (simp add: polled_attempts)
  from cua_attempt_canceled [OF this]
  have t: "cua_take_action cenvs w = (Inr (None, True), polled ?e ?w)"
    unfolding cua_take_action_def by (rule retrying_returns)
  show "\<exists>w'. cua_take_action cenvs w = (Inr (None, True), w') \<and>
            cua_steps (Suc n) cenvs steps w = (steps, w') \<and>
            task_status w' = CANCELED \<and> task_saves w' = task_saves w \<and>
            untouched w w'"
    using c' by (intro exI [of _ "polled ?e ?w"]) (simp add: t polled_attempts untouched_def, simp add: polled_def)
qed

lemma active_attempts: "active e (w\<lparr>attempts := k\<rparr>) = active e w"
  by (simp add: active_def polled_def cancelled_def)

lemma claude_blocks_plain:
  assumes "\<forall>b \<in> set bs. plain_block e b"
  shows "\<exists>w'. claude_blocks e bs th trc w = (Inr trc, w') \<and> same_task w w' \<and>
              model_calls w' = model_calls w \<and> history w' = history w \<and>
              attempts w' = attempts w"
  using assms
proof (induction bs arbitrary: th w)
  case Nil
  show ?case by (simp add: same_task_def)
next
  case (Cons b bs)
  from Cons.prems have pb: "plain_block e b" and rest: "\<forall>b \<in> set bs. plain_block e b" by simp_all
  from pb obtain ty where ty: "block_type b = Inr ty" "ty \<noteq> ''tool_use''"
    by (auto simp: plain_block_def split: sum.splits)
  show ?case
  proof (cases "ty = ''text''")
    case True
    with pb ty obtain t where t: "block_get b ''text'' = Inr (JStr t)"
      "console_print e (BlockText (Some (JStr t))) = None"
      by (auto simp: plain_block_def split: sum.splits json.splits)
    from Cons.IH [OF rest, of "th @ t @ [CHR 0x0A]" "post_message (Seen (Some (JStr t))) w"]
    obtain w' where "claude_blocks e bs (th @ t @ [CHR 0x0A]) trc (post_message (Seen (Some (JStr t))) w) = (Inr trc, w')"
      "same_task (post_message (Seen (Some (JStr t))) w) w'" "model_calls w' = model_calls (post_message (Seen (Some (JStr t))) w)"
      "history w' = history (post_message (Seen (Some (JStr t))) w)" "attempts w' = attempts (post_message (Seen (Some (JStr t))) w)"
      by blast
    with ty True t show ?thesis
      by (simp add: same_task_def post_message_def)
  next
    case False
    from Cons.IH [OF rest, of th w] ty False show ?thesis by simp
  qed
qed

lemma claude_attempt_no_action:
  assumes a: "active e w" and m: "model e = Inr r" and s: "stop_reason r \<noteq> ''end_turn''"
    and p: "\<forall>b \<in> set (response_params r). plain_block e b"
  shows "\<exists>w'. claude_attempt e w = (Inr True, w') \<and> same_task (polled e w) w' \<and>
              model_calls w' = Suc (model_calls w)"
proof -
  obtain trimmed where tr: "maybe_filter_to_n_most_recent_images (history (polled e w)) 3 2 = Inr trimmed"
    by (simp add: maybe_filter_to_n_most_recent_images_def Let_def)
  define w2 where "w2 = (polled e w)\<lparr>model_calls := Suc (model_calls (polled e w)),
       history := trimmed @
         [\<lparr>msg_role = ''assistant'', msg_content = Items (response_params r)\<rparr>]\<rparr>"
  from claude_blocks_plain [OF p, of "[]" "[]" w2]
  obtain w' where b: "claude_blocks e (response_params r) [] [] w2 = (Inr [], w')"
    and st: "same_task w2 w'" and mc: "model_calls w' = model_calls w2"
    by blast
  have "claude_act e (polled e w) = (Inr True, w')"
    using m s tr b by (simp add: claude_act_def Let_def w2_def)
  with a have "claude_attempt e w = (Inr True, w')"
    by (simp add: claude_attempt_def active_def reraising_def)
  moreover have "same_task (polled e w) w'"
    using st by (simp add: same_task_def w2_def)
  moreover have "model_calls w' = Suc (model_calls w)"
    using mc by (simp add: w2_def polled_def)
  ultimately show ?thesis by blast
qed

lemma cua_attempt_no_action:
  assumes a: "active e w"
    and m: "model e = Inr None \<or> (\<exists>s. model e = Inr (Some s) \<and> action s = None)"
  shows "cua_attempt e w = (Inr (None, False), (polled e w)\<lparr>model_calls := Suc (model_calls w)\<rparr>)"
proof -
  have "cua_act e (polled e w) = (Inr (None, False), (polled e w)\<lparr>model_calls := Suc (model_calls w)\<rparr>)"
    using m by (auto simp: cua_act_def Let_def polled_def)
  with a show ?thesis by (simp add: cua_attempt_def active_def reraising_def)
qed

text \<open>
  Claim C7, as amended. The task is not being cancelled. In the cua agent a response
  without step, or a step without action, records nothing, dispatches nothing and the
  loop goes on with the next step. In the claude agent a response that is not an
  \<open>end_turn\<close> and has no tool use, the texts of its text blocks being strings that
  the console prints, also records and dispatches nothing, but \<open>take_action\<close>
  returns \<open>done\<close> and the loop ends there, the task status as it was and no error
  raised.
\<close>

theorem no_action_found:
  "(active (cenvs (attempts w)) w \<and>
    (model (cenvs (attempts w)) = Inr None \<or>
     (\<exists>s. model (cenvs (attempts w)) = Inr (Some s) \<and> action s = None)) \<longrightarrow>
      (\<exists>w'. cua_take_action cenvs w = (Inr (None, False), w') \<and>
            cua_steps (Suc n) cenvs steps w = cua_steps n cenvs steps w' \<and>
            same_task (polled (cenvs (attempts w)) w) w' \<and>
            model_calls w' = Suc (model_calls w))) \<and>
   (active (envs (attempts w)) w \<and> model (envs (attempts w)) = Inr r \<and>
    stop_reason r \<noteq> ''end_turn'' \<and>
    (\<forall>b \<in> set (response_params r). plain_block (envs (attempts w)) b) \<longrightarrow>
      (\<exists>w'. claude_take_action envs w = (Inr True, w') \<and>
            claude_steps (Suc n) envs w = w' \<and>
            same_task (polled (envs (attempts w)) w) w' \<and>
            model_calls w' = Suc (model_calls w)))"
proof (intro conjI impI)
  let ?e = "cenvs (attempts w)"
  let ?w = "w\<lparr>attempts := Suc (attempts w)\<rparr>"
  assume h: "active ?e w \<and> (model ?e = Inr None \<or> (\<exists>s. model ?e = Inr (Some s) \<and> action s = None))"
  then have a: "active ?e ?w" by (simp add: active_attempts)
  define w' where "w' = (polled ?e ?w)\<lparr>model_calls := Suc (model_calls ?w)\<rparr>"
  from cua_attempt_no_action [OF a] h have "cua_attempt ?e ?w = (Inr (None, False), w')"
    unfolding w'_def by blast
  then have t: "cua_take_action cenvs w = (Inr (None, False), w')"
    unfolding cua_take_action_def by (rule retrying_returns)
  have "same_task (polled ?e w) w'"
    by (simp add: same_task_def w'_def polled_attempts)
  moreover have "model_calls w' = Suc (model_calls w)" by (simp add: w'_def)
  moreover have "cua_steps (Suc n) cenvs steps w = cua_steps n cenvs steps w'"
    by (simp add: t)
  ultimately show "\<exists>w'. cua_take_action cenvs w = (Inr (None, False), w') \<and>
            cua_steps (Suc n) cenvs steps w = cua_steps n cenvs steps w' \<and>
            same_task (polled (cenvs (attempts w)) w) w' \<and>
            model_calls w' = Suc (model_calls w)"
    using t by blast
next
  let ?e = "envs (attempts w)"
  let ?w = "w\<lparr>attempts := Suc (attempts w)\<rparr>"
  assume h: "active ?e w \<and> model ?e = Inr r \<and> stop_reason r \<noteq> ''end_turn'' \<and>
    (\<forall>b \<in> set (response_params r). plain_block ?e b)"
  then have a: "active ?e ?w" by (simp add: active_attempts)
  from claude_attempt_no_action [OF a, of r] h
  obtain w' where at: "claude_attempt ?e ?w = (Inr True, w')"
    and st: "same_task (polled ?e ?w) w'" and mc: "model_calls w' = Suc (model_calls ?w)"
    by blast
  from at have t: "claude_take_action envs w = (Inr True, w')"
    unfolding claude_take_action_def by (rule retrying_returns)
  have "same_task (polled ?e w) w'"
    using st by (simp add: same_task_def polled_attempts)
  moreover have "model_calls w' = Suc (model_calls w)" using mc by simp
  moreover have "claude_steps (Suc n) envs w = w'" by (simp add: t)
  ultimately show "\<exists>w'. claude_take_action envs w = (Inr True, w') \<and>
            claude_steps (Suc n) envs w = w' \<and>
            same_task (polled (envs (attempts w)) w) w' \<and>
            model_calls w' = Suc (model_calls w)"
    using t by blast
qed

lemma retrying_raises_RetryError:
  "retrying n envs attempt w = (Inl x, w') \<Longrightarrow> \<exists>last. x = RetryError last"
proof (induction n arbitrary: w)
  case 0
  then show ?case by (auto split: prod.splits sum.splits)
next
  case (Suc n)
  then show ?case by (auto split: prod.splits sum.splits)
qed









lemma active_fresh: "active (desktop m) fresh_task"
  by (simp add: active_def polled_def cancelled_def fresh_task_def)

text \<open>The theorem of C5 at a task that is being cancelled and one that is cancelled.\<close>

theorem cancelled_step_stops_witness:
  "task_status (polled (musing 0) (fresh_task\<lparr>task_status := CANCELING\<rparr>)) = CANCELING \<and>
   claude_take_action musing (fresh_task\<lparr>task_status := CANCELING\<rparr>) =
     (Inr True, fresh_task\<lparr>task_status := CANCELED, task_saves := 1, attempts := 1\<rparr>) \<and>
   claude_steps 3 musing (fresh_task\<lparr>task_status := CANCELING\<rparr>) =
     fresh_task\<lparr>task_status := CANCELED, task_saves := 1, attempts := 1\<rparr> \<and>
   task_status (polled (silent 0) (fresh_task\<lparr>task_status := CANCELED\<rparr>)) = CANCELED \<and>
   cua_steps 3 silent [] (fresh_task\<lparr>task_status := CANCELED\<rparr>) =
     ([], fresh_task\<lparr>task_status := CANCELED, attempts := 1\<rparr>)"
proof -
  have c1: "task_status (polled (musing 0) (fresh_task\<lparr>task_status := CANCELING\<rparr>)) = CANCELING"
    by (simp add: polled_def fresh_task_def)
  have c2: "task_status (polled (silent 0) (fresh_task\<lparr>task_status := CANCELED\<rparr>)) = CANCELED"
    by (simp add: polled_def fresh_task_def)
  have a: "attempts (fresh_task\<lparr>task_status := CANCELING\<rparr>) = 0"
    "attempts (fresh_task\<lparr>task_status := CANCELED\<rparr>) = 0"
    by (simp_all add: fresh_task_def)
  from cancelled_step_stops [of musing "fresh_task\<lparr>task_status := CANCELING\<rparr>" 2 silent "[]"] c1 a
  obtain w' where t: "claude_take_action musing (fresh_task\<lparr>task_status := CANCELING\<rparr>) = (Inr True, w')"
    and s: "claude_steps 3 musing (fresh_task\<lparr>task_status := CANCELING\<rparr>) = w'"
    by (auto simp: numeral_3_eq_3)
  have t': "claude_take_action musing (fresh_task\<lparr>task_status := CANCELING\<rparr>) =
     (Inr True, fresh_task\<lparr>task_status := CANCELED, task_saves := 1, attempts := 1\<rparr>)"
    by (simp add: claude_take_action_def stop_after_attempt_def eval_nat_numeral
        claude_attempt_def reraising_def cancelled_def polled_def save_def fresh_task_def)
  from cancelled_step_stops [of musing "fresh_task\<lparr>task_status := CANCELED\<rparr>" 2 silent "[]"] c2 a
  obtain v' where "cua_take_action silent (fresh_task\<lparr>task_status := CANCELED\<rparr>) = (Inr (None, True), v')"
    and s2: "cua_steps 3 silent [] (fresh_task\<lparr>task_status := CANCELED\<rparr>) = ([], v')"
    by (auto simp: numeral_3_eq_3)
  moreover have "cua_take_action silent (fresh_task\<lparr>task_status := CANCELED\<rparr>) =
     (Inr (None, True), fresh_task\<lparr>task_status := CANCELED, attempts := 1\<rparr>)"
    by (simp add: cua_take_action_def stop_after_attempt_def eval_nat_numeral
        cua_attempt_def reraising_def cancelled_def polled_def save_def fresh_task_def)
  ultimately have "cua_steps 3 silent [] (fresh_task\<lparr>task_status := CANCELED\<rparr>) =
     ([], fresh_task\<lparr>task_status := CANCELED, attempts := 1\<rparr>)"
    by simp
  with c1 c2 t t' s show ?thesis by simp
qed

text \<open>The definitions a concrete run unfolds.\<close>

lemmas loop_defs =
  claude_take_action_def cua_take_action_def stop_after_attempt_def
  claude_attempt_def cua_attempt_def claude_act_def cua_act_def reraising_def cancelled_def
  polled_def save_def post_message_def using_action_def recording_def fail_task_def
  max_steps_reached_def console_printing_def post_response_def plain_console_def

lemma four: "(4::nat) = Suc (Suc (Suc (Suc 0)))"
  by simp


text \<open>The theorem of C7 at a cua response without step and a claude response of text only.\<close>

theorem no_action_found_witness:
  "active (silent 0) fresh_task \<and> model (silent 0) = Inr None \<and>
   cua_take_action silent fresh_task =
     (Inr (None, False), fresh_task\<lparr>model_calls := 1, attempts := 1\<rparr>) \<and>
   cua_steps 2 silent [] fresh_task =
     cua_steps 1 silent [] (fresh_task\<lparr>model_calls := 1, attempts := 1\<rparr>) \<and>
   active (musing 0) fresh_task \<and>
   fst (claude_take_action musing fresh_task) = Inr True \<and>
   claude_steps 3 musing fresh_task = snd (claude_take_action musing fresh_task) \<and>
   model_calls (claude_steps 3 musing fresh_task) = 1 \<and>
   task_actions (claude_steps 3 musing fresh_task) = [] \<and>
   task_status (claude_steps 3 musing fresh_task) = RUNNING"
proof -
  let ?r = "\<lparr>stop_reason = ''max_tokens'',
     response_params = [DictItem (Some ''text'') Missing [(''text'', JStr ''Let me think'')]]\<rparr>"
  have a0: "attempts fresh_task = 0" by (simp add: fresh_task_def)
  have c: "active (silent 0) fresh_task" "model (silent 0) = Inr None"
    by (simp_all add: silent_def active_fresh) (simp add: desktop_def)
  have k: "active (musing 0) fresh_task" "model (musing 0) = Inr ?r"
    "stop_reason ?r \<noteq> ''end_turn''"
    "\<forall>b \<in> set (response_params ?r). plain_block (musing 0) b"
    by (simp_all add: musing_def active_fresh plain_block_def getitem_def)
       (simp_all add: desktop_def plain_console_def)
  have p: "polled (silent 0) fresh_task = fresh_task" "polled (musing 0) fresh_task = fresh_task"
    by (simp_all add: polled_def fresh_task_def)
  have ct: "cua_take_action silent fresh_task =
     (Inr (None, False), fresh_task\<lparr>model_calls := 1, attempts := 1\<rparr>)"
    by (simp add: loop_defs four silent_def desktop_def fresh_task_def Let_def)
  from no_action_found [of silent fresh_task 1 "[]" musing ?r] a0 c k p
  obtain w' v' where
    "cua_take_action silent fresh_task = (Inr (None, False), w')"
    "cua_steps (Suc 1) silent [] fresh_task = cua_steps 1 silent [] w'"
    and t: "claude_take_action musing fresh_task = (Inr True, v')"
    and s: "same_task fresh_task v'" "model_calls v' = Suc (model_calls fresh_task)"
    by auto
  with ct have cs: "cua_steps 2 silent [] fresh_task =
     cua_steps 1 silent [] (fresh_task\<lparr>model_calls := 1, attempts := 1\<rparr>)"
    by (simp add: numeral_2_eq_2)
  from t have cl: "claude_steps 3 musing fresh_task = v'"
    by (simp add: numeral_3_eq_3)
  from s have "model_calls v' = 1" "task_actions v' = []" "task_status v' = RUNNING"
    by (simp_all add: same_task_def fresh_task_def)
  with c k ct cs t cl show ?thesis by simp
qed

text \<open>
  Against C7 as stated: with three steps allowed, the claude agent given a response of
  text only calls the model once and returns; it does not go on to a second step.
\<close>

theorem claude_no_action_ends_loop:
  "model_calls (claude_solve_task 3 musing fresh_task) = 1 \<and>
   task_status (claude_solve_task 3 musing fresh_task) = RUNNING \<and>
   task_actions (claude_solve_task 3 musing fresh_task) = [] \<and>
   task_error (claude_solve_task 3 musing fresh_task) = None"
  by (simp add: claude_solve_task_def numeral_3_eq_3 loop_defs four musing_def desktop_def
      fresh_task_def maybe_filter_to_n_most_recent_images_def total_images_def images_of_def
      tool_result_blocks_def getitem_def Let_def)




lemma fail_task_status: "task_status (fail_task x w) = FAILED"
  by (simp add: fail_task_def post_message_def save_def)

lemma fail_task_error: "task_error (fail_task x w) = Some (py_str x)"
  by (simp add: fail_task_def post_message_def save_def)


text \<open>
  Claim C6, as amended. Whenever \<open>take_action\<close> raises, all its attempts are used up
  and what it raises is the \<open>RetryError\<close> of the retry decorator around the last
  attempt's exception; \<open>solve_task\<close> marks the task \<open>FAILED\<close> and stores the text of
  that \<open>RetryError\<close>, which names the class of the last exception and not its text.
\<close>

theorem exhausted_retries:
  "(claude_take_action envs w = (Inl x, w') \<longrightarrow>
      (\<exists>last. x = RetryError last \<and>
         claude_steps (Suc n) envs w = fail_task x w' \<and>
         task_status (claude_steps (Suc n) envs w) = FAILED \<and>
         task_error (claude_steps (Suc n) envs w) =
           Some (''RetryError[<Future state=finished raised '' @ class_name last @ ''>]''))) \<and>
   (cua_take_action cenvs w = (Inl x, v') \<longrightarrow>
      (\<exists>last. x = RetryError last \<and>
         cua_steps (Suc n) cenvs steps w = (steps, fail_task x v') \<and>
         task_status (snd (cua_steps (Suc n) cenvs steps w)) = FAILED \<and>
         task_error (snd (cua_steps (Suc n) cenvs steps w)) =
           Some (''RetryError[<Future state=finished raised '' @ class_name last @ ''>]'')))"
proof (intro conjI impI)
  assume t: "claude_take_action envs w = (Inl x, w')"
  then obtain last where l: "x = RetryError last"
    unfolding claude_take_action_def using retrying_raises_RetryError by blast
  have s: "claude_steps (Suc n) envs w = fail_task x w'" by (simp add: t)
  show "\<exists>last. x = RetryError last \<and>
         claude_steps (Suc n) envs w = fail_task x w' \<and>
         task_status (claude_steps (Suc n) envs w) = FAILED \<and>
         task_error (claude_steps (Suc n) envs w) =
           Some (''RetryError[<Future state=finished raised '' @ class_name last @ ''>]'')"
  proof (intro exI [of _ last] conjI)
    show "x = RetryError last" by (rule l)
    show "claude_steps (Suc n) envs w = fail_task x w'" by (rule s)
    show "task_status (claude_steps (Suc n) envs w) = FAILED"
      by (simp only: s fail_task_status)
    have "task_error (claude_steps (Suc n) envs w) = Some (py_str x)"
      by (simp only: s fail_task_error)
    then show "task_error (claude_steps (Suc n) envs w) =
           Some (''RetryError[<Future state=finished raised '' @ class_name last @ ''>]'')"
      by (simp only: l py_str.simps)
  qed
next
  assume t: "cua_take_action cenvs w = (Inl x, v')"
  then obtain last where l: "x = RetryError last"
    unfolding cua_take_action_def using retrying_raises_RetryError by blast
  have s: "cua_steps (Suc n) cenvs steps w = (steps, fail_task x v')" by (simp add: t)
  show "\<exists>last. x = RetryError last \<and>
         cua_steps (Suc n) cenvs steps w = (steps, fail_task x v') \<and>
         task_status (snd (cua_steps (Suc n) cenvs steps w)) = FAILED \<and>
         task_error (snd (cua_steps (Suc n) cenvs steps w)) =
           Some (''RetryError[<Future state=finished raised '' @ class_name last @ ''>]'')"
  proof (intro exI [of _ last] conjI)
    show "x = RetryError last" by (rule l)
    show "cua_steps (Suc n) cenvs steps w = (steps, fail_task x v')" by (rule s)
    show "task_status (snd (cua_steps (Suc n) cenvs steps w)) = FAILED"
      by (simp only: s snd_conv fail_task_status)
    have "task_error (snd (cua_steps (Suc n) cenvs steps w)) = Some (py_str x)"
      by (simp only: s snd_conv fail_task_error)
    then show "task_error (snd (cua_steps (Suc n) cenvs steps w)) =
           Some (''RetryError[<Future state=finished raised '' @ class_name last @ ''>]'')"
      by (simp only: l py_str.simps)
  qed
qed

text \<open>The definitions a concrete run of the claude agent unfolds.\<close>

lemmas claude_run_defs =
  loop_defs four desktop_def fresh_task_def maybe_filter_to_n_most_recent_images_def
  total_images_def images_of_def tool_result_blocks_def getitem_def Let_def
  claude_tool_use_def tool_use_action_def mapped_name_def action_mapping_def



text \<open>
  Against C6 as stated: the device raises \<open>boom\<close> on every use; the task ends
  \<open>FAILED\<close> with an error field that is the text of the \<open>RetryError\<close> and holds
  neither \<open>boom\<close> nor the agent's own \<open>Trouble using action: boom\<close>.
\<close>

theorem error_field_is_wrapper:
  "use (broken_device 4) ''click'' [] = Inl (ExternalError ''boom'') \<and>
   task_status (snd (cua_solve_task 3 broken_device fresh_task)) = FAILED \<and>
   task_error (snd (cua_solve_task 3 broken_device fresh_task)) =
     Some ''RetryError[<Future state=finished raised ValueError>]''"
  by (simp add: cua_solve_task_def numeral_3_eq_3 loop_defs four broken_device_def desktop_def
      fresh_task_def click_step_def canonical_names_def Let_def)

text \<open>The theorem of C6 at a model that is down and a device that is broken.\<close>

theorem exhausted_retries_witness:
  "fst (claude_take_action model_down fresh_task) = Inl (RetryError (ExternalError ''overloaded'')) \<and>
   task_status (claude_steps 1 model_down fresh_task) = FAILED \<and>
   task_error (claude_steps 1 model_down fresh_task) =
     Some ''RetryError[<Future state=finished raised Exception>]'' \<and>
   fst (cua_take_action broken_device fresh_task) =
     Inl (RetryError (ValueError ''Trouble using action: boom'')) \<and>
   task_error (snd (cua_steps 1 broken_device [] fresh_task)) =
     Some ''RetryError[<Future state=finished raised ValueError>]''"
proof -
  obtain x w' where t: "claude_take_action model_down fresh_task = (x, w')"
    by (cases "claude_take_action model_down fresh_task")
  have fx: "fst (claude_take_action model_down fresh_task) = Inl (RetryError (ExternalError ''overloaded''))"
    by (simp add: claude_run_defs model_down_def)
  with t have t': "claude_take_action model_down fresh_task = (Inl (RetryError (ExternalError ''overloaded'')), w')"
    by simp
  obtain y v' where c: "cua_take_action broken_device fresh_task = (y, v')"
    by (cases "cua_take_action broken_device fresh_task")
  have fy: "fst (cua_take_action broken_device fresh_task) =
     Inl (RetryError (ValueError ''Trouble using action: boom''))"
    by (simp add: loop_defs four broken_device_def desktop_def fresh_task_def click_step_def
        canonical_names_def Let_def)
  with c have c': "cua_take_action broken_device fresh_task =
     (Inl (RetryError (ValueError ''Trouble using action: boom'')), v')"
    by simp
  from exhausted_retries [of model_down fresh_task "RetryError (ExternalError ''overloaded'')" w' 0]
    t'
  have k1: "task_status (claude_steps (Suc 0) model_down fresh_task) = FAILED \<and>
     task_error (claude_steps (Suc 0) model_down fresh_task) =
       Some ''RetryError[<Future state=finished raised Exception>]''"
    by auto
  from exhausted_retries [of model_down fresh_task
      "RetryError (ValueError ''Trouble using action: boom'')" w' 0 broken_device v' "[]"] c'
  have k2: "task_error (snd (cua_steps (Suc 0) broken_device [] fresh_task)) =
       Some ''RetryError[<Future state=finished raised ValueError>]''"
    by auto
  from fx fy k1 k2 show ?thesis by simp
qed














text \<open>
  A text block that the console cannot render: the print raises after the text has
  been posted, the attempt is retried, and after five model calls the task is
  \<open>FAILED\<close> with the wrapper around \<open>MarkupError\<close> as its error.
\<close>

lemma text_with_closing_tag_is_retried:
  "model_calls (claude_solve_task 3 musing_in_markup fresh_task) = 5 \<and>
   task_status (claude_solve_task 3 musing_in_markup fresh_task) = FAILED \<and>
   task_error (claude_solve_task 3 musing_in_markup fresh_task) =
     Some ''RetryError[<Future state=finished raised MarkupError>]''"
  by (simp add: claude_solve_task_def numeral_3_eq_3 claude_run_defs musing_in_markup_def
      tag_console_def)

text \<open>
  An answer of the device that the console cannot render: the print comes after the
  dispatch and before the record, so the cua agent sends the click five times and
  records nothing.
\<close>

lemma answer_with_closing_tag_is_retried:
  "map fst (device_uses (snd (cua_solve_task 3 answering_in_markup fresh_task))) =
     [''click'', ''click'', ''click'', ''click'', ''click''] \<and>
   task_actions (snd (cua_solve_task 3 answering_in_markup fresh_task)) = [] \<and>
   task_status (snd (cua_solve_task 3 answering_in_markup fresh_task)) = FAILED"
  by (simp add: cua_solve_task_def numeral_3_eq_3 loop_defs four answering_in_markup_def
      desktop_def fresh_task_def click_step_def canonical_names_def Let_def tag_console_def)

end
